theory Spec2Isabelle
  imports Main "HOL-Library.Char_ord" "HOL-Library.List_Lexorder" "HOL-Library.Product_Lexorder"
    "HOL-Library.Multiset"
begin

section \<open>Key/value run logging: values, errors and Python helpers\<close>

text \<open>
  The development embeds \<^verbatim>\<open>r2r/core/logging/kv_logger.py\<close>: the three storage
  providers (SQLite, Postgres, Redis), the facade \<^verbatim>\<open>KVLoggingSingleton\<close> and the
  analytics pass \<^verbatim>\<open>process_logs\<close>.

  A run identifier is the canonical text of a UUID (\<^verbatim>\<open>str(log_id)\<close>); the conversion
  \<^verbatim>\<open>uuid.UUID(str(u))\<close> is the identity on it. An instant is an integer number of seconds:
  SQLite stores the text \<^verbatim>\<open>YYYY-MM-DD HH:MM:SS\<close> of it, whose order as text is the order
  of the instants, Postgres a \<^verbatim>\<open>TIMESTAMPTZ\<close> and Redis a float score. Strings are
  ASCII texts; a character beyond ASCII, which only an escape in a JSON text brings in, is held
  as its UTF-8 bytes. The configuration is the default \<^verbatim>\<open>LoggingConfig\<close>.
\<close>

type_synonym uuid = string
type_synonym instant = int

text \<open>Every exception is an instance of Python's \<^verbatim>\<open>Exception\<close>; the payload is the message
  where the source gives one, the missing attribute or key otherwise.\<close>

datatype error =
    ValueError string
  | TypeError string
  | AttributeError string
  | KeyError string
  | IntegrityError
  | PostgresError string
  | JSONDecodeError

text \<open>\<^verbatim>\<open>sub in s\<close> on strings: \<^verbatim>\<open>sub\<close> occurs in \<^verbatim>\<open>s\<close> as a contiguous run.\<close>

fun startswith :: "string \<Rightarrow> string \<Rightarrow> bool" where
  "startswith s [] = True"
| "startswith [] (c # cs) = False"
| "startswith (x # xs) (c # cs) = (x = c \<and> startswith xs cs)"

fun py_in :: "string \<Rightarrow> string \<Rightarrow> bool" where
  "py_in sub [] = (sub = [])"
| "py_in sub (x # xs) = (startswith (x # xs) sub \<or> py_in sub xs)"

text \<open>Truthiness of an optional string: \<^verbatim>\<open>None\<close> and the empty string are false.\<close>

fun truthy_str :: "string option \<Rightarrow> bool" where
  "truthy_str None = False"
| "truthy_str (Some s) = (s \<noteq> [])"

text \<open>Truthiness of an optional number: \<^verbatim>\<open>None\<close> and zero are false.\<close>

fun truthy_num :: "instant option \<Rightarrow> bool" where
  "truthy_num None = False"
| "truthy_num (Some t) = (t \<noteq> 0)"

text \<open>\<^verbatim>\<open>xs[:n]\<close>: a negative bound counts from the end.\<close>

definition py_slice_to :: "'a list \<Rightarrow> int \<Rightarrow> 'a list" where
  "py_slice_to xs n =
     (if 0 \<le> n then take (nat n) xs else take (length xs - nat (- n)) xs)"

section \<open>What the providers return\<close>

record RunInfo =
  run_id :: uuid
  log_type :: string

text \<open>The value under \<^verbatim>\<open>"timestamp"\<close> in a returned log dictionary has the type the
  backend's driver gives it: text from SQLite, a datetime from Postgres, a float from Redis.\<close>

datatype ts_val = TsText string | TsDatetime instant | TsFloat instant

text \<open>A log dictionary as \<^verbatim>\<open>get_logs\<close> returns it. The relational backends add the
  column \<^verbatim>\<open>rn\<close> of the ranking query; Redis has no such key.\<close>

record log_dict =
  ld_timestamp :: ts_val
  ld_log_id :: uuid
  ld_key :: string
  ld_value :: string
  ld_rn :: "nat option"

record throughput_sample =
  ts_timestamp :: ts_val
  ts_num_requests :: int
  ts_request_type :: string

section \<open>The relational backends\<close>

record log_row =
  lr_timestamp :: instant
  lr_log_id :: uuid
  lr_key :: string
  lr_value :: string

record info_row =
  ir_timestamp :: instant
  ir_log_id :: uuid
  ir_log_type :: string

record throughput_row =
  tr_timestamp :: instant
  tr_num_requests :: int
  tr_request_type :: string

text \<open>A relational provider: \<^verbatim>\<open>self.conn\<close> (open or \<^verbatim>\<open>None\<close>) and the rows of the
  three tables \<^verbatim>\<open>logs\<close>, \<^verbatim>\<open>logs_pipeline_info\<close> and \<^verbatim>\<open>throughput_logs\<close>, in
  the order they were inserted. SQL leaves open in which order \<^verbatim>\<open>ORDER BY timestamp\<close>
  puts rows whose timestamps are equal; the last three fields are the database engine's choice
  there: among rows with equal timestamps the one with the smaller number comes first. One
  field serves the statement of \<^verbatim>\<open>get_run_info\<close>, one the ranking inside the statement of
  \<^verbatim>\<open>get_logs\<close> and one its final ordering. Every function is a possible choice.\<close>

record sql_provider =
  conn :: bool
  logs :: "log_row list"
  logs_pipeline_info :: "info_row list"
  throughput_logs :: "throughput_row list"
  tie_info :: "info_row \<Rightarrow> nat"
  tie_rank :: "log_row \<Rightarrow> nat"
  tie_final :: "nat \<times> log_row \<Rightarrow> nat"

text \<open>SQLite's \<^verbatim>\<open>datetime(t, 'unixepoch')\<close> and \<^verbatim>\<open>datetime('now')\<close>: the text
  \<^verbatim>\<open>YYYY-MM-DD HH:MM:SS\<close> of an instant (proleptic Gregorian calendar, UTC).\<close>

definition digit_char :: "nat \<Rightarrow> char" where
  "digit_char d = char_of (48 + d mod 10)"

fun pad_num :: "nat \<Rightarrow> nat \<Rightarrow> string" where
  "pad_num 0 n = []"
| "pad_num (Suc w) n = pad_num w (n div 10) @ [digit_char n]"

definition civil_from_days :: "int \<Rightarrow> int \<times> int \<times> int" where
  "civil_from_days days =
     (let z = days + 719468;
          era = z div 146097;
          doe = z - era * 146097;
          yoe = (doe - doe div 1460 + doe div 36524 - doe div 146096) div 365;
          doy = doe - (365 * yoe + yoe div 4 - yoe div 100);
          mp = (5 * doy + 2) div 153;
          d = doy - (153 * mp + 2) div 5 + 1;
          m = (if mp < 10 then mp + 3 else mp - 9);
          y = yoe + era * 400 + (if m \<le> 2 then 1 else 0)
      in (y, m, d))"

definition sqlite_datetime :: "instant \<Rightarrow> string" where
  "sqlite_datetime t =
     (let (y, m, d) = civil_from_days (t div 86400);
          s = t mod 86400
      in pad_num 4 (nat y) @ ''-'' @ pad_num 2 (nat m) @ ''-'' @ pad_num 2 (nat d) @ '' '' @
         pad_num 2 (nat (s div 3600)) @ '':'' @ pad_num 2 (nat (s mod 3600 div 60)) @ '':'' @
         pad_num 2 (nat (s mod 60)))"

subsection \<open>Connection life cycle\<close>

definition sql_init :: "sql_provider \<Rightarrow> sql_provider" where
  "sql_init self = self\<lparr>conn := True\<rparr>"

definition sql_aenter :: "sql_provider \<Rightarrow> sql_provider" where
  "sql_aenter self = (if \<not> conn self then sql_init self else self)"

definition sql_close :: "sql_provider \<Rightarrow> sql_provider" where
  "sql_close self = (if conn self then self\<lparr>conn := False\<rparr> else self)"

subsection \<open>\<^verbatim>\<open>log\<close>\<close>

text \<open>The info table declares \<^verbatim>\<open>log_id UNIQUE\<close>: inserting a run that is already there
  fails. Using a connection that is \<^verbatim>\<open>None\<close> is an attribute error. \<^verbatim>\<open>now\<close> is the
  instant the database's clock gives the insert.\<close>

definition insert_info ::
  "sql_provider \<Rightarrow> instant \<Rightarrow> uuid \<Rightarrow> string \<Rightarrow> (error + unit) \<times> sql_provider" where
  "insert_info self now log_id v =
     (if \<not> conn self then (Inl (AttributeError ''execute''), self)
      else if log_id \<in> set (map ir_log_id (logs_pipeline_info self))
      then (Inl IntegrityError, self)
      else (Inr (), self\<lparr>logs_pipeline_info := logs_pipeline_info self @
              [\<lparr>ir_timestamp = now, ir_log_id = log_id, ir_log_type = v\<rparr>]\<rparr>))"

definition insert_log ::
  "sql_provider \<Rightarrow> instant \<Rightarrow> uuid \<Rightarrow> string \<Rightarrow> string \<Rightarrow> (error + unit) \<times> sql_provider" where
  "insert_log self now log_id k v =
     (if \<not> conn self then (Inl (AttributeError ''execute''), self)
      else (Inr (), self\<lparr>logs := logs self @
              [\<lparr>lr_timestamp = now, lr_log_id = log_id, lr_key = k, lr_value = v\<rparr>]\<rparr>))"

definition Local_log ::
  "sql_provider \<Rightarrow> instant \<Rightarrow> uuid \<Rightarrow> string \<Rightarrow> string \<Rightarrow> bool \<Rightarrow> (error + unit) \<times> sql_provider" where
  "Local_log self now log_id k v is_info_log =
     (if is_info_log then
        (if \<not> py_in ''type'' k
         then (Inl (ValueError (''Info log keys must contain the text '' @ [CHR 0x27] @ ''type'' @ [CHR 0x27])), self)
         else insert_info self now log_id v)
      else insert_log self now log_id k v)"

definition Postgres_log ::
  "sql_provider \<Rightarrow> instant \<Rightarrow> uuid \<Rightarrow> string \<Rightarrow> string \<Rightarrow> bool \<Rightarrow> (error + unit) \<times> sql_provider" where
  "Postgres_log self now log_id k v is_info_log =
     (if is_info_log then
        (if \<not> py_in ''type'' k
         then (Inl (ValueError ''Info log key must contain the string `type`.''), self)
         else insert_info self now log_id v)
      else insert_log self now log_id k v)"

subsection \<open>\<^verbatim>\<open>get_run_info\<close>\<close>

text \<open>\<^verbatim>\<open>ORDER BY timestamp DESC\<close>: the rows by descending timestamp, rows with equal
  timestamps in the order the engine's choice \<^verbatim>\<open>tie\<close> gives them.\<close>

definition order_by_desc :: "('a \<Rightarrow> nat) \<Rightarrow> ('a \<Rightarrow> instant) \<Rightarrow> 'a list \<Rightarrow> 'a list" where
  "order_by_desc tie ts rows = sort_key (\<lambda>r. (- ts r, tie r)) rows"

text \<open>\<^verbatim>\<open>LIMIT n\<close>: SQLite takes a negative bound as no bound.\<close>

definition sqlite_limit :: "'a list \<Rightarrow> int \<Rightarrow> 'a list" where
  "sqlite_limit rows n = (if n < 0 then rows else take (nat n) rows)"

definition to_RunInfo :: "info_row \<Rightarrow> RunInfo" where
  "to_RunInfo row = \<lparr>run_id = ir_log_id row, log_type = ir_log_type row\<rparr>"

text \<open>A statement with \<^verbatim>\<open>?\<close> placeholders needs as many parameters as it has placeholders.\<close>

definition sqlite_params_ok :: "nat \<Rightarrow> nat \<Rightarrow> bool" where
  "sqlite_params_ok placeholders nparams = (placeholders = nparams)"

definition Local_get_run_info ::
  "sql_provider \<Rightarrow> int \<Rightarrow> string option \<Rightarrow> error + RunInfo list" where
  "Local_get_run_info self limit log_type_filter =
     (if \<not> conn self then Inl (AttributeError ''cursor'')
      else
        let conditions = (if truthy_str log_type_filter then 1 else 0 :: nat);
            params = (if truthy_str log_type_filter then 1 else 0 :: nat) + 1
        in if \<not> sqlite_params_ok (conditions + 1) params
           then Inl (ValueError ''Incorrect number of bindings supplied.'')
           else
             let rows = (if truthy_str log_type_filter
                         then filter (\<lambda>r. Some (ir_log_type r) = log_type_filter)
                                (logs_pipeline_info self)
                         else logs_pipeline_info self)
             in Inr (map to_RunInfo
                       (sqlite_limit (order_by_desc (tie_info self) ir_timestamp rows) limit)))"

text \<open>A Postgres statement names its parameters \<^verbatim>\<open>$1\<close>, \<^verbatim>\<open>$2\<close>, ...: the server takes
  the highest number used as the number of parameters, must find a type for each of them from
  a use in the statement, and the driver must be given exactly that many arguments.
  \<^verbatim>\<open>used\<close> lists the numbers the statement text uses.\<close>

definition pg_params_ok :: "nat list \<Rightarrow> nat \<Rightarrow> bool" where
  "pg_params_ok used nargs =
     (list_all (\<lambda>i. i \<in> set used) [1..<Suc nargs] \<and> list_all (\<lambda>u. 1 \<le> u \<and> u \<le> nargs) used)"

text \<open>The statement ends in \<^verbatim>\<open>LIMIT $2\<close> whether or not the filter put a \<^verbatim>\<open>$1\<close> before
  it. Postgres rejects a negative \<^verbatim>\<open>LIMIT\<close>.\<close>

definition Postgres_get_run_info ::
  "sql_provider \<Rightarrow> int \<Rightarrow> string option \<Rightarrow> error + RunInfo list" where
  "Postgres_get_run_info self limit log_type_filter =
     (let conditions = (if truthy_str log_type_filter then [1] else []);
          params = (if truthy_str log_type_filter then 1 else 0 :: nat) + 1
      in if \<not> conn self then Inl (AttributeError ''fetch'')
         else if \<not> pg_params_ok (conditions @ [2]) params
         then Inl (PostgresError ''parameters do not match the statement'')
         else if limit < 0 then Inl (PostgresError ''LIMIT must not be negative'')
         else
           let rows = (if truthy_str log_type_filter
                       then filter (\<lambda>r. Some (ir_log_type r) = log_type_filter)
                              (logs_pipeline_info self)
                       else logs_pipeline_info self)
           in Inr (map to_RunInfo
                     (take (nat limit) (order_by_desc (tie_info self) ir_timestamp rows))))"

subsection \<open>\<^verbatim>\<open>get_logs\<close>\<close>

text \<open>\<^verbatim>\<open>ROW_NUMBER() OVER (PARTITION BY log_id ORDER BY timestamp DESC)\<close>: the rows of each
  run, newest first, numbered from 1; \<^verbatim>\<open>tie\<close> is the engine's choice among rows of a
  run with equal timestamps. The partitions come out in the order of their \<^verbatim>\<open>log_id\<close>.\<close>

definition partition_rows :: "(log_row \<Rightarrow> nat) \<Rightarrow> log_row list \<Rightarrow> uuid \<Rightarrow> (nat \<times> log_row) list" where
  "partition_rows tie rows r =
     enumerate 1 (order_by_desc tie lr_timestamp (filter (\<lambda>x. lr_log_id x = r) rows))"

definition row_number_over :: "(log_row \<Rightarrow> nat) \<Rightarrow> log_row list \<Rightarrow> (nat \<times> log_row) list" where
  "row_number_over tie rows =
     concat (map (partition_rows tie rows) (sort (remdups (map lr_log_id rows))))"

text \<open>The whole query: the rows of the requested runs, ranked, those with
  \<^verbatim>\<open>rn <= limit_per_run\<close> kept and the result ordered by \<^verbatim>\<open>timestamp DESC\<close>, with
  the engine's choices for the ranking and for the final ordering.\<close>

definition ranked_logs_query ::
  "(log_row \<Rightarrow> nat) \<Rightarrow> (nat \<times> log_row \<Rightarrow> nat) \<Rightarrow> log_row list \<Rightarrow> uuid list \<Rightarrow> int
     \<Rightarrow> (nat \<times> log_row) list" where
  "ranked_logs_query tie_r tie_f rows run_ids limit_per_run =
     order_by_desc tie_f (\<lambda>(rn, x). lr_timestamp x)
       (filter (\<lambda>(rn, x). int rn \<le> limit_per_run)
          (row_number_over tie_r (filter (\<lambda>x. lr_log_id x \<in> set run_ids) rows)))"

definition Local_dict :: "nat option \<Rightarrow> log_row \<Rightarrow> log_dict" where
  "Local_dict rn x =
     \<lparr>ld_timestamp = TsText (sqlite_datetime (lr_timestamp x)), ld_log_id = lr_log_id x,
      ld_key = lr_key x, ld_value = lr_value x, ld_rn = rn\<rparr>"

definition Postgres_dict :: "nat option \<Rightarrow> log_row \<Rightarrow> log_dict" where
  "Postgres_dict rn x =
     \<lparr>ld_timestamp = TsDatetime (lr_timestamp x), ld_log_id = lr_log_id x,
      ld_key = lr_key x, ld_value = lr_value x, ld_rn = rn\<rparr>"

definition Local_get_logs :: "sql_provider \<Rightarrow> uuid list \<Rightarrow> int \<Rightarrow> error + log_dict list" where
  "Local_get_logs self run_ids limit_per_run =
     (if run_ids = [] then Inl (ValueError ''No run ids provided.'')
      else if \<not> conn self then Inl (AttributeError ''cursor'')
      else if \<not> sqlite_params_ok (length run_ids + 1) (length run_ids + 1)
      then Inl (ValueError ''Incorrect number of bindings supplied.'')
      else Inr (map (\<lambda>(rn, x). Local_dict (Some rn) x)
                  (ranked_logs_query (tie_rank self) (tie_final self) (logs self)
                     run_ids limit_per_run)))"

definition Postgres_get_logs :: "sql_provider \<Rightarrow> uuid list \<Rightarrow> int \<Rightarrow> error + log_dict list" where
  "Postgres_get_logs self run_ids limit_per_run =
     (if run_ids = [] then Inl (ValueError ''No run ids provided.'')
      else if \<not> conn self then Inl (AttributeError ''fetch'')
      else if \<not> pg_params_ok ([1..<Suc (length run_ids)] @ [length run_ids + 1])
                  (length run_ids + 1)
      then Inl (PostgresError ''parameters do not match the statement'')
      else Inr (map (\<lambda>(rn, x). Postgres_dict (Some rn) x)
                  (ranked_logs_query (tie_rank self) (tie_final self) (logs self)
                     run_ids limit_per_run)))"

subsection \<open>Throughput samples\<close>

text \<open>\<^verbatim>\<open>aiosqlite\<close>'s \<^verbatim>\<open>execute(sql, parameters)\<close> takes the statement and at most one
  more positional argument, the sequence of parameters. \<^verbatim>\<open>log_throughput\<close> passes the three
  values as three arguments; \<^verbatim>\<open>log\<close> passes one tuple.\<close>

definition aiosqlite_execute_args_ok :: "nat \<Rightarrow> bool" where
  "aiosqlite_execute_args_ok n = (n \<le> 1)"

definition Local_log_throughput ::
  "sql_provider \<Rightarrow> instant \<Rightarrow> int \<Rightarrow> string \<Rightarrow> (error + unit) \<times> sql_provider" where
  "Local_log_throughput self t num_requests request_type =
     (if \<not> conn self then (Inl (AttributeError ''execute''), self)
      else if \<not> aiosqlite_execute_args_ok 3
      then (Inl (TypeError ''execute() takes from 2 to 3 positional arguments but 5 were given''), self)
      else (Inr (), self\<lparr>throughput_logs := throughput_logs self @
              [\<lparr>tr_timestamp = t, tr_num_requests = num_requests,
                tr_request_type = request_type\<rparr>]\<rparr>))"

definition Local_sample :: "throughput_row \<Rightarrow> throughput_sample" where
  "Local_sample row =
     \<lparr>ts_timestamp = TsText (sqlite_datetime (tr_timestamp row)),
      ts_num_requests = tr_num_requests row, ts_request_type = tr_request_type row\<rparr>"

text \<open>\<^verbatim>\<open>if start_time and end_time\<close>: the interval is applied when both bounds are truthy.\<close>

definition Local_get_throughput_data ::
  "sql_provider \<Rightarrow> instant option \<Rightarrow> instant option \<Rightarrow> error + throughput_sample list" where
  "Local_get_throughput_data self start_time end_time =
     (if \<not> conn self then Inl (AttributeError ''cursor'')
      else if truthy_num start_time \<and> truthy_num end_time
      then Inr (map Local_sample
                  (filter (\<lambda>row. the start_time \<le> tr_timestamp row \<and> tr_timestamp row \<le> the end_time)
                     (throughput_logs self)))
      else Inr (map Local_sample (throughput_logs self)))"

text \<open>The Postgres provider reads \<^verbatim>\<open>self.connection\<close> first. \<^verbatim>\<open>__init__\<close> and
  \<^verbatim>\<open>init\<close> assign \<^verbatim>\<open>self.conn\<close> only, so the attribute does not exist.\<close>

definition Postgres_log_throughput ::
  "sql_provider \<Rightarrow> instant \<Rightarrow> int \<Rightarrow> string \<Rightarrow> (error + unit) \<times> sql_provider" where
  "Postgres_log_throughput self t num_requests request_type =
     (Inl (AttributeError ''connection''), self)"

definition Postgres_get_throughput_data ::
  "sql_provider \<Rightarrow> instant option \<Rightarrow> instant option \<Rightarrow> error + throughput_sample list" where
  "Postgres_get_throughput_data self start_time end_time = Inl (AttributeError ''connection'')"

section \<open>The Redis backend\<close>

text \<open>An entry is the dictionary \<^verbatim>\<open>log_entry\<close>; \<^verbatim>\<open>json.loads(json.dumps(e))\<close> gives
  \<^verbatim>\<open>e\<close> back, so the store holds the entry itself. \<^verbatim>\<open>log_type\<close> is there for info
  entries only.\<close>

record redis_entry =
  re_timestamp :: instant
  re_log_id :: uuid
  re_key :: string
  re_value :: string
  re_log_type :: "string option"

text \<open>The Redis data the provider uses: the lists (a key that is absent is the empty list),
  the hash \<^verbatim>\<open>logs_pipeline_info\<close> and the sorted set \<^verbatim>\<open>logs_pipeline_info_sorted\<close>
  (members with their scores; no member twice).\<close>

record redis_provider =
  r_lists :: "string \<Rightarrow> redis_entry list"
  r_hash :: "string \<rightharpoonup> redis_entry"
  r_zset :: "(string \<times> instant) list"

definition lpush :: "redis_provider \<Rightarrow> string \<Rightarrow> redis_entry \<Rightarrow> redis_provider" where
  "lpush self k e = self\<lparr>r_lists := (r_lists self)(k := e # r_lists self k)\<rparr>"

definition hset :: "redis_provider \<Rightarrow> string \<Rightarrow> redis_entry \<Rightarrow> redis_provider" where
  "hset self field e = self\<lparr>r_hash := (r_hash self)(field \<mapsto> e)\<rparr>"

definition zadd :: "redis_provider \<Rightarrow> string \<Rightarrow> instant \<Rightarrow> redis_provider" where
  "zadd self member score =
     self\<lparr>r_zset := (member, score) # filter (\<lambda>(m, s). m \<noteq> member) (r_zset self)\<rparr>"

text \<open>\<^verbatim>\<open>LRANGE\<close> and \<^verbatim>\<open>ZREVRANGE\<close> take inclusive bounds; a negative bound counts from
  the end of the sequence.\<close>

definition redis_range :: "'a list \<Rightarrow> int \<Rightarrow> int \<Rightarrow> 'a list" where
  "redis_range xs start stop =
     (let n = int (length xs);
          s = (if start < 0 then max 0 (n + start) else start);
          e = (if stop < 0 then n + stop else min stop (n - 1))
      in if e < s \<or> n \<le> s then [] else take (nat (e - s + 1)) (drop (nat s) xs))"

definition lrange :: "redis_provider \<Rightarrow> string \<Rightarrow> int \<Rightarrow> int \<Rightarrow> redis_entry list" where
  "lrange self k start stop = redis_range (r_lists self k) start stop"

text \<open>The sorted set orders its members by score, members with equal scores by their text;
  \<^verbatim>\<open>ZREVRANGE\<close> reads it from the highest.\<close>

definition zrevrange :: "redis_provider \<Rightarrow> int \<Rightarrow> int \<Rightarrow> string list" where
  "zrevrange self start stop =
     redis_range (map fst (rev (sort_key (\<lambda>(m, s). (s, m)) (r_zset self)))) start stop"

definition log_key_of :: "uuid \<Rightarrow> string" where
  "log_key_of log_id = ''logs:'' @ log_id"

definition Redis_log ::
  "redis_provider \<Rightarrow> instant \<Rightarrow> uuid \<Rightarrow> string \<Rightarrow> string \<Rightarrow> bool \<Rightarrow> (error + unit) \<times> redis_provider" where
  "Redis_log self now log_id k v is_info_log =
     (let log_entry = \<lparr>re_timestamp = now, re_log_id = log_id, re_key = k, re_value = v,
                        re_log_type = None\<rparr>
      in if is_info_log then
           (if \<not> py_in ''type'' k
            then (Inl (ValueError (''Metadata keys must contain the text '' @ [CHR 0x27] @ ''type'' @ [CHR 0x27])), self)
            else (Inr (), zadd (hset self log_id (log_entry\<lparr>re_log_type := Some v\<rparr>)) log_id now))
         else (Inr (), lpush self (log_key_of log_id) log_entry))"

subsection \<open>\<^verbatim>\<open>get_run_info\<close>\<close>

text \<open>The body of the \<^verbatim>\<open>for\<close> loop over one batch. \<^verbatim>\<open>hget\<close> gives \<^verbatim>\<open>None\<close> for a
  field that is absent, which \<^verbatim>\<open>json.loads\<close> refuses.\<close>

fun scan_batch ::
  "redis_provider \<Rightarrow> int \<Rightarrow> string option \<Rightarrow> string list \<Rightarrow> RunInfo list \<Rightarrow> error + RunInfo list" where
  "scan_batch self limit log_type_filter [] run_info_list = Inr run_info_list"
| "scan_batch self limit log_type_filter (log_id # log_ids) run_info_list =
     (case r_hash self log_id of
        None \<Rightarrow> Inl (TypeError ''the JSON object must be str, bytes or bytearray, not NoneType'')
      | Some log_entry \<Rightarrow>
          (case re_log_type log_entry of
             None \<Rightarrow> Inl (KeyError ''log_type'')
           | Some lt \<Rightarrow>
               let run_info_list' =
                     (if truthy_str log_type_filter
                      then (if Some lt = log_type_filter
                            then run_info_list @ [\<lparr>run_id = re_log_id log_entry, log_type = lt\<rparr>]
                            else run_info_list)
                      else run_info_list @ [\<lparr>run_id = re_log_id log_entry, log_type = lt\<rparr>])
               in if limit \<le> int (length run_info_list') then Inr run_info_list'
                  else scan_batch self limit log_type_filter log_ids run_info_list'))"

text \<open>The \<^verbatim>\<open>while\<close> loop: batches of 100 members. A run of the loop that does not end
  has no result.\<close>

partial_function (option) run_info_loop ::
  "redis_provider \<Rightarrow> int \<Rightarrow> string option \<Rightarrow> nat \<Rightarrow> RunInfo list \<Rightarrow> (error + RunInfo list) option" where
  "run_info_loop self limit log_type_filter start run_info_list =
     (if int (length run_info_list) < limit then
        (let log_ids = zrevrange self (int start) (int start + 100 - 1)
         in if log_ids = [] then Some (Inr run_info_list)
            else (case scan_batch self limit log_type_filter log_ids run_info_list of
                    Inl e \<Rightarrow> Some (Inl e)
                  | Inr run_info_list' \<Rightarrow>
                      run_info_loop self limit log_type_filter (start + 100) run_info_list'))
      else Some (Inr run_info_list))"

declare run_info_loop.simps [code]

definition Redis_get_run_info ::
  "redis_provider \<Rightarrow> int \<Rightarrow> string option \<Rightarrow> (error + RunInfo list) option" where
  "Redis_get_run_info self limit log_type_filter =
     (case run_info_loop self limit log_type_filter 0 [] of
        None \<Rightarrow> None
      | Some (Inl e) \<Rightarrow> Some (Inl e)
      | Some (Inr run_info_list) \<Rightarrow> Some (Inr (py_slice_to run_info_list limit)))"

subsection \<open>\<^verbatim>\<open>get_logs\<close>\<close>

definition Redis_dict :: "redis_entry \<Rightarrow> log_dict" where
  "Redis_dict e =
     \<lparr>ld_timestamp = TsFloat (re_timestamp e), ld_log_id = re_log_id e,
      ld_key = re_key e, ld_value = re_value e, ld_rn = None\<rparr>"

text \<open>One bounded \<^verbatim>\<open>LRANGE\<close> per element of \<^verbatim>\<open>run_ids\<close>, in the order of the list. There
  is no check of \<^verbatim>\<open>run_ids\<close>.\<close>

definition Redis_get_logs :: "redis_provider \<Rightarrow> uuid list \<Rightarrow> int \<Rightarrow> error + log_dict list" where
  "Redis_get_logs self run_ids limit_per_run =
     Inr (concat (map (\<lambda>run_id. map Redis_dict
                         (lrange self (log_key_of run_id) 0 (limit_per_run - 1))) run_ids))"

section \<open>Library functions used by the analytics pass\<close>

definition is_digit :: "char \<Rightarrow> bool" where
  "is_digit c = (c \<in> set ''0123456789'')"

definition is_word :: "char \<Rightarrow> bool" where
  "is_word c = (c \<in> set ''abcdefghijklmnopqrstuvwxyzABCDEFGHIJKLMNOPQRSTUVWXYZ0123456789_'')"

definition is_space :: "char \<Rightarrow> bool" where
  "is_space c = (c \<in> set [CHR '' '', CHR 0x09, CHR 0x0A, CHR 0x0B, CHR 0x0C, CHR 0x0D,
                             CHR 0x1C, CHR 0x1D, CHR 0x1E, CHR 0x1F])"

definition dval :: "char \<Rightarrow> nat" where
  "dval c = (if is_digit c then of_char c - 48 else 0)"

subsection \<open>\<^verbatim>\<open>re.findall(r'\b\d{3}\b', s)\<close>\<close>

text \<open>The matches from left to right, none overlapping another: three digits with no word
  character before and none after. The first argument says whether the character before the
  position is a word character.\<close>

fun findall_3digit :: "bool \<Rightarrow> string \<Rightarrow> string list" where
  "findall_3digit pw (a # b # c # rest) =
     (if \<not> pw \<and> is_digit a \<and> is_digit b \<and> is_digit c \<and>
         (case rest of [] \<Rightarrow> True | d # _ \<Rightarrow> \<not> is_word d)
      then [a, b, c] # findall_3digit True rest
      else findall_3digit (is_word a) (b # c # rest))"
| "findall_3digit pw s = []"

definition re_findall :: "string \<Rightarrow> string list" where
  "re_findall s = findall_3digit False s"

subsection \<open>\<^verbatim>\<open>datetime.strptime(s, "%Y-%m-%d %H:%M:%S").date()\<close>\<close>

datatype date = Date nat nat nat

definition str_date :: "date \<Rightarrow> string" where
  "str_date d = (case d of Date y m dd \<Rightarrow> pad_num 4 y @ ''-'' @ pad_num 2 m @ ''-'' @ pad_num 2 dd)"

text \<open>A field of one or two characters: the two-character alternatives of the directive's
  pattern are tried first, then the one-character alternative, each with the rest of the
  format after it.\<close>

fun alt2 :: "(char \<Rightarrow> char \<Rightarrow> bool) \<Rightarrow> string \<Rightarrow> (nat \<times> string) option" where
  "alt2 P (a # b # rest) = (if P a b then Some (dval a * 10 + dval b, rest) else None)"
| "alt2 P s = None"

fun alt1 :: "(char \<Rightarrow> bool) \<Rightarrow> string \<Rightarrow> (nat \<times> string) option" where
  "alt1 P (a # rest) = (if P a then Some (dval a, rest) else None)"
| "alt1 P s = None"

definition field ::
  "(char \<Rightarrow> char \<Rightarrow> bool) \<Rightarrow> (char \<Rightarrow> bool) \<Rightarrow> string \<Rightarrow> (nat \<Rightarrow> string \<Rightarrow> 'a option) \<Rightarrow> 'a option" where
  "field P2 P1 s k =
     (case (case alt2 P2 s of Some (v, rest) \<Rightarrow> k v rest | None \<Rightarrow> None) of
        Some r \<Rightarrow> Some r
      | None \<Rightarrow> (case alt1 P1 s of Some (v, rest) \<Rightarrow> k v rest | None \<Rightarrow> None))"

definition literal :: "char \<Rightarrow> string \<Rightarrow> (string \<Rightarrow> 'a option) \<Rightarrow> 'a option" where
  "literal c s k = (case s of [] \<Rightarrow> None | x # rest \<Rightarrow> if x = c then k rest else None)"

definition spaces :: "string \<Rightarrow> (string \<Rightarrow> 'a option) \<Rightarrow> 'a option" where
  "spaces s k = (case s of [] \<Rightarrow> None | x # rest \<Rightarrow> if is_space x then k (dropWhile is_space rest) else None)"

fun year4 :: "string \<Rightarrow> (nat \<Rightarrow> string \<Rightarrow> 'a option) \<Rightarrow> 'a option" where
  "year4 (a # b # c # d # rest) k =
     (if is_digit a \<and> is_digit b \<and> is_digit c \<and> is_digit d
      then k (dval a * 1000 + dval b * 100 + dval c * 10 + dval d) rest else None)"
| "year4 s k = None"

definition in_range :: "char \<Rightarrow> string \<Rightarrow> bool" where
  "in_range c cs = (c \<in> set cs)"

definition month_pat :: "char \<Rightarrow> char \<Rightarrow> bool" where
  "month_pat a b = ((a = CHR ''1'' \<and> in_range b ''012'') \<or> (a = CHR ''0'' \<and> in_range b ''123456789''))"

definition day_pat :: "char \<Rightarrow> char \<Rightarrow> bool" where
  "day_pat a b = ((a = CHR ''3'' \<and> in_range b ''01'') \<or> (in_range a ''12'' \<and> is_digit b) \<or>
                  (a = CHR ''0'' \<and> in_range b ''123456789'') \<or> (a = CHR '' '' \<and> in_range b ''123456789''))"

definition hour_pat :: "char \<Rightarrow> char \<Rightarrow> bool" where
  "hour_pat a b = ((a = CHR ''2'' \<and> in_range b ''0123'') \<or> (in_range a ''01'' \<and> is_digit b))"

definition minute_pat :: "char \<Rightarrow> char \<Rightarrow> bool" where
  "minute_pat a b = (in_range a ''012345'' \<and> is_digit b)"

definition second_pat :: "char \<Rightarrow> char \<Rightarrow> bool" where
  "second_pat a b = ((a = CHR ''6'' \<and> in_range b ''01'') \<or> (in_range a ''012345'' \<and> is_digit b))"

definition nonzero_digit :: "char \<Rightarrow> bool" where
  "nonzero_digit c = in_range c ''123456789''"

text \<open>The six numbers of a text that matches the format, with nothing left over.\<close>

definition match_format :: "string \<Rightarrow> (nat \<times> nat \<times> nat \<times> nat \<times> nat \<times> nat) option" where
  "match_format s =
     year4 s (\<lambda>y s. literal CHR ''-'' s (\<lambda>s. field month_pat nonzero_digit s
       (\<lambda>m s. literal CHR ''-'' s (\<lambda>s. field day_pat nonzero_digit s
       (\<lambda>d s. spaces s (\<lambda>s. field hour_pat is_digit s
       (\<lambda>H s. literal CHR '':'' s (\<lambda>s. field minute_pat is_digit s
       (\<lambda>M s. literal CHR '':'' s (\<lambda>s. field second_pat is_digit s
       (\<lambda>S s. if s = [] then Some (y, m, d, H, M, S) else None)))))))))))"

definition is_leap :: "nat \<Rightarrow> bool" where
  "is_leap y = (y mod 4 = 0 \<and> (y mod 100 \<noteq> 0 \<or> y mod 400 = 0))"

definition days_in_month :: "nat \<Rightarrow> nat \<Rightarrow> nat" where
  "days_in_month y m =
     (if m = 2 then (if is_leap y then 29 else 28)
      else if m \<in> set [4, 6, 9, 11] then 30 else 31)"

definition strptime_date :: "ts_val \<Rightarrow> error + date" where
  "strptime_date v =
     (case v of
        TsText s \<Rightarrow>
          (case match_format s of
             None \<Rightarrow> Inl (ValueError ''time data does not match format'')
           | Some (y, m, d, H, M, S) \<Rightarrow>
               if y < 1 \<or> days_in_month y m < d \<or> 59 < S
               then Inl (ValueError ''value out of range'')
               else Inr (Date y m d))
      | _ \<Rightarrow> Inl (TypeError ''strptime() argument 1 must be str''))"

subsection \<open>\<^verbatim>\<open>float(s)\<close>\<close>

text \<open>The result stands for the float the literal denotes; only whether the text is a float
  literal is decided here.\<close>

datatype pyfloat = PyFloat string

fun digits_tail :: "string \<Rightarrow> string" where
  "digits_tail (a # b # cs) =
     (if is_digit a then digits_tail (b # cs)
      else if a = CHR ''_'' \<and> is_digit b then digits_tail cs
      else a # b # cs)"
| "digits_tail [a] = (if is_digit a then [] else [a])"
| "digits_tail [] = []"

definition digitpart :: "string \<Rightarrow> string option" where
  "digitpart s = (case s of [] \<Rightarrow> None | c # cs \<Rightarrow> if is_digit c then Some (digits_tail cs) else None)"

definition exponent_ok :: "string \<Rightarrow> bool" where
  "exponent_ok s =
     (case s of
        [] \<Rightarrow> True
      | c # cs \<Rightarrow>
          if c \<in> set ''eE'' then
            (case digitpart (case cs of [] \<Rightarrow> [] | x # xs \<Rightarrow> if x \<in> set ''+-'' then xs else cs) of
               Some [] \<Rightarrow> True | _ \<Rightarrow> False)
          else False)"

definition number_ok :: "string \<Rightarrow> bool" where
  "number_ok s =
     (case s of
        [] \<Rightarrow> False
      | c # cs \<Rightarrow>
          if c = CHR ''.'' then (case digitpart cs of None \<Rightarrow> False | Some rest \<Rightarrow> exponent_ok rest)
          else (case digitpart s of
                  None \<Rightarrow> False
                | Some rest \<Rightarrow>
                    (case rest of
                       [] \<Rightarrow> True
                     | x # xs \<Rightarrow>
                         if x = CHR ''.'' then
                           (case digitpart xs of None \<Rightarrow> exponent_ok xs | Some rest' \<Rightarrow> exponent_ok rest')
                         else exponent_ok rest)))"

definition lower :: "char \<Rightarrow> char" where
  "lower c = (if c \<in> set ''ABCDEFGHIJKLMNOPQRSTUVWXYZ'' then char_of (of_char c + (32 :: nat)) else c)"

definition strip :: "string \<Rightarrow> string" where
  "strip s = rev (dropWhile is_space (rev (dropWhile is_space s)))"

definition py_float :: "string \<Rightarrow> error + pyfloat" where
  "py_float s =
     (let t = strip s;
          u = (case t of [] \<Rightarrow> [] | c # cs \<Rightarrow> if c \<in> set ''+-'' then cs else t)
      in if map lower u \<in> set [''inf'', ''infinity'', ''nan''] \<or> number_ok u
         then Inr (PyFloat t)
         else Inl (ValueError ''could not convert string to float''))"

subsection \<open>\<^verbatim>\<open>json.loads(s)\<close>\<close>

text \<open>A number keeps its literal. An object keeps its pairs in the order of the text.
  An escape \<^verbatim>\<open>\uXXXX\<close> is read as the character it names, a high surrogate followed by
  the escape of a low one as the character the pair names; a character beyond ASCII is held
  as its UTF-8 bytes.\<close>

datatype json =
    JNull
  | JBool bool
  | JNum string
  | JStr string
  | JArr "json list"
  | JObj "(string \<times> json) list"

definition json_ws :: "char \<Rightarrow> bool" where
  "json_ws c = (c \<in> set [CHR '' '', CHR 0x09, CHR 0x0A, CHR 0x0D])"

definition skip_ws :: "string \<Rightarrow> string" where
  "skip_ws s = dropWhile json_ws s"

definition hexval :: "char \<Rightarrow> nat option" where
  "hexval c =
     (if is_digit c then Some (of_char c - 48)
      else if c \<in> set ''abcdef'' then Some (of_char c - 87)
      else if c \<in> set ''ABCDEF'' then Some (of_char c - 55)
      else None)"

definition unescape :: "char \<Rightarrow> char option" where
  "unescape c =
     (if c = CHR 0x22 then Some (CHR 0x22)
      else if c = CHR 0x5C then Some (CHR 0x5C)
      else if c = CHR ''/'' then Some (CHR ''/'')
      else if c = CHR ''b'' then Some (CHR 0x08)
      else if c = CHR ''f'' then Some (CHR 0x0C)
      else if c = CHR ''n'' then Some (CHR 0x0A)
      else if c = CHR ''r'' then Some (CHR 0x0D)
      else if c = CHR ''t'' then Some (CHR 0x09)
      else None)"

definition hex4 :: "string \<Rightarrow> (nat \<times> string) option" where
  "hex4 s =
     (case s of
        h1 # h2 # h3 # h4 # rest \<Rightarrow>
          (case (hexval h1, hexval h2, hexval h3, hexval h4) of
             (Some a, Some b, Some c, Some d) \<Rightarrow> Some (((a * 16 + b) * 16 + c) * 16 + d, rest)
           | _ \<Rightarrow> None)
      | _ \<Rightarrow> None)"

text \<open>The UTF-8 bytes of a code point.\<close>

definition utf8 :: "nat \<Rightarrow> string" where
  "utf8 n =
     (if n < 0x80 then [char_of n]
      else if n < 0x800 then [char_of (0xC0 + n div 64), char_of (0x80 + n mod 64)]
      else if n < 0x10000
      then [char_of (0xE0 + n div 4096), char_of (0x80 + n div 64 mod 64), char_of (0x80 + n mod 64)]
      else [char_of (0xF0 + n div 262144), char_of (0x80 + n div 4096 mod 64),
            char_of (0x80 + n div 64 mod 64), char_of (0x80 + n mod 64)])"

text \<open>What follows \<^verbatim>\<open>\u\<close>: the code point and the rest of the text. After a high
  surrogate, \<^verbatim>\<open>\u\<close> must again be followed by four hexadecimal digits; when they name
  a low surrogate the two are one character, otherwise the second escape is left to be read
  next.\<close>

definition unicode_escape :: "string \<Rightarrow> (nat \<times> string) option" where
  "unicode_escape s =
     (case hex4 s of
        None \<Rightarrow> None
      | Some (n, rest) \<Rightarrow>
          if 0xD800 \<le> n \<and> n \<le> 0xDBFF then
            (case rest of
               b # v # after \<Rightarrow>
                 if b = CHR 0x5C \<and> v = CHR ''u'' then
                   (case hex4 after of
                      None \<Rightarrow> None
                    | Some (m, rest') \<Rightarrow>
                        if 0xDC00 \<le> m \<and> m \<le> 0xDFFF
                        then Some (0x10000 + (n - 0xD800) * 1024 + (m - 0xDC00), rest')
                        else Some (n, rest))
                 else Some (n, rest)
             | _ \<Rightarrow> Some (n, rest))
          else Some (n, rest))"

text \<open>The characters of a string after its opening quote, up to the closing one.\<close>

function scan_string :: "string \<Rightarrow> string \<Rightarrow> (string \<times> string) option" where
  "scan_string [] acc = None"
| "scan_string (c # cs) acc =
     (if c = CHR 0x22 then Some (acc, cs)
      else if c = CHR 0x5C then
        (case cs of
           [] \<Rightarrow> None
         | e # es \<Rightarrow>
             if e = CHR ''u'' then
               (case unicode_escape es of
                  None \<Rightarrow> None
                | Some (u, rest) \<Rightarrow> scan_string rest (acc @ utf8 u))
             else (case unescape e of None \<Rightarrow> None | Some x \<Rightarrow> scan_string es (acc @ [x])))
      else if of_char c < (32 :: nat) then None
      else scan_string cs (acc @ [c]))"
  by pat_completeness auto
termination
  by (relation "measure (\<lambda>(s, acc). length s)")
     (auto simp: unicode_escape_def hex4_def split: option.splits if_splits list.splits)

text \<open>The literal of a number at the head of the text: an integer part, then a fraction and
  an exponent where they are complete.\<close>

definition scan_int :: "string \<Rightarrow> (string \<times> string) option" where
  "scan_int s =
     (let (sign, t) = (case s of [] \<Rightarrow> ([], []) | c # cs \<Rightarrow> if c = CHR ''-'' then ([c], cs) else ([], s))
      in case t of
           [] \<Rightarrow> None
         | d # ds \<Rightarrow>
             if d = CHR ''0'' then Some (sign @ [d], ds)
             else if is_digit d then Some (sign @ d # takeWhile is_digit ds, dropWhile is_digit ds)
             else None)"

definition scan_frac :: "string \<Rightarrow> string \<times> string" where
  "scan_frac s =
     (case s of
        c # d # ds \<Rightarrow>
          if c = CHR ''.'' \<and> is_digit d then (c # d # takeWhile is_digit ds, dropWhile is_digit ds)
          else ([], s)
      | _ \<Rightarrow> ([], s))"

definition scan_exp :: "string \<Rightarrow> string \<times> string" where
  "scan_exp s =
     (case s of
        c # cs \<Rightarrow>
          if c \<in> set ''eE'' then
            (let (sg, t) = (case cs of [] \<Rightarrow> ([], []) | x # xs \<Rightarrow> if x \<in> set ''+-'' then ([x], xs) else ([], cs))
             in case t of
                  [] \<Rightarrow> ([], s)
                | d # ds \<Rightarrow>
                    if is_digit d then (c # sg @ d # takeWhile is_digit ds, dropWhile is_digit ds)
                    else ([], s))
          else ([], s)
      | _ \<Rightarrow> ([], s))"

definition scan_number :: "string \<Rightarrow> (json \<times> string) option" where
  "scan_number s =
     (case scan_int s of
        None \<Rightarrow> None
      | Some (i, r1) \<Rightarrow>
          let (f, r2) = scan_frac r1; (e, r3) = scan_exp r2
          in Some (JNum (i @ f @ e), r3))"

definition scan_word :: "string \<Rightarrow> json \<Rightarrow> string \<Rightarrow> (json \<times> string) option" where
  "scan_word w v s = (if startswith s w then Some (v, drop (length w) s) else None)"

text \<open>The recursive descent, with a bound on its depth that \<^verbatim>\<open>json_loads\<close> takes from
  the length of the text: every call but that of \<^verbatim>\<open>parse_elements\<close> and
  \<^verbatim>\<open>parse_members\<close> to \<^verbatim>\<open>parse_value\<close> is made after a character has been
  read.\<close>

fun parse_value :: "nat \<Rightarrow> string \<Rightarrow> (json \<times> string) option"
  and parse_elements :: "nat \<Rightarrow> string \<Rightarrow> json list \<Rightarrow> (json \<times> string) option"
  and parse_members :: "nat \<Rightarrow> string \<Rightarrow> (string \<times> json) list \<Rightarrow> (json \<times> string) option"
where
  "parse_value 0 s = None"
| "parse_value (Suc n) s =
     (case s of
        [] \<Rightarrow> None
      | c # cs \<Rightarrow>
          if c = CHR 0x22 then
            (case scan_string cs [] of None \<Rightarrow> None | Some (str, rest) \<Rightarrow> Some (JStr str, rest))
          else if c = CHR ''['' then
            (case skip_ws cs of
               [] \<Rightarrow> None
             | x # xs \<Rightarrow> if x = CHR '']'' then Some (JArr [], xs) else parse_elements n (x # xs) [])
          else if c = CHR ''{'' then
            (case skip_ws cs of
               [] \<Rightarrow> None
             | x # xs \<Rightarrow> if x = CHR ''}'' then Some (JObj [], xs) else parse_members n (x # xs) [])
          else if c = CHR ''n'' then scan_word ''null'' JNull s
          else if c = CHR ''t'' then scan_word ''true'' (JBool True) s
          else if c = CHR ''f'' then scan_word ''false'' (JBool False) s
          else if c = CHR ''N'' then scan_word ''NaN'' (JNum ''NaN'') s
          else if c = CHR ''I'' then scan_word ''Infinity'' (JNum ''Infinity'') s
          else if startswith s ''-Infinity'' then scan_word ''-Infinity'' (JNum ''-Infinity'') s
          else scan_number s)"
| "parse_elements 0 s acc = None"
| "parse_elements (Suc n) s acc =
     (case parse_value n s of
        None \<Rightarrow> None
      | Some (v, rest) \<Rightarrow>
          (case skip_ws rest of
             [] \<Rightarrow> None
           | x # xs \<Rightarrow>
               if x = CHR '']'' then Some (JArr (acc @ [v]), xs)
               else if x = CHR '','' then parse_elements n (skip_ws xs) (acc @ [v])
               else None))"
| "parse_members 0 s acc = None"
| "parse_members (Suc n) s acc =
     (case s of
        [] \<Rightarrow> None
      | q # qs \<Rightarrow>
          if q \<noteq> CHR 0x22 then None
          else
            (case scan_string qs [] of
               None \<Rightarrow> None
             | Some (k, rest) \<Rightarrow>
                 (case skip_ws rest of
                    [] \<Rightarrow> None
                  | c # cs \<Rightarrow>
                      if c \<noteq> CHR '':'' then None
                      else
                        (case parse_value n (skip_ws cs) of
                           None \<Rightarrow> None
                         | Some (v, rest') \<Rightarrow>
                             (case skip_ws rest' of
                                [] \<Rightarrow> None
                              | x # xs \<Rightarrow>
                                  if x = CHR ''}'' then Some (JObj (acc @ [(k, v)]), xs)
                                  else if x = CHR '','' then parse_members n (skip_ws xs) (acc @ [(k, v)])
                                  else None)))))"

definition json_loads :: "string \<Rightarrow> error + json" where
  "json_loads s =
     (case parse_value (2 * length s + 2) (skip_ws s) of
        None \<Rightarrow> Inl JSONDecodeError
      | Some (v, rest) \<Rightarrow> if skip_ws rest = [] then Inr v else Inl JSONDecodeError)"

section \<open>The analytics pass \<^verbatim>\<open>process_logs\<close>\<close>

text \<open>\<^verbatim>\<open>defaultdict(int)\<close> as a list of pairs in the order the keys were first used.\<close>

fun bump :: "'k \<Rightarrow> ('k \<times> nat) list \<Rightarrow> ('k \<times> nat) list" where
  "bump k [] = [(k, 1)]"
| "bump k ((k', n) # kvs) = (if k' = k then (k', n + 1) # kvs else (k', n) # bump k kvs)"

text \<open>\<^verbatim>\<open>error_timestamps[day][code] += 1\<close> on the \<^verbatim>\<open>defaultdict\<close> of
  \<^verbatim>\<open>defaultdict(int)\<close>.\<close>

fun bump2 :: "'d \<Rightarrow> 'k \<Rightarrow> ('d \<times> ('k \<times> nat) list) list \<Rightarrow> ('d \<times> ('k \<times> nat) list) list" where
  "bump2 d k [] = [(d, [(k, 1)])]"
| "bump2 d k ((d', m) # dms) = (if d' = d then (d', bump k m) # dms else (d', m) # bump2 d k dms)"

text \<open>\<^verbatim>\<open>error_dict.get(error_type, 0)\<close>.\<close>

definition get0 :: "('k \<times> nat) list \<Rightarrow> 'k \<Rightarrow> nat" where
  "get0 m k = (case map_of m k of None \<Rightarrow> 0 | Some n \<Rightarrow> n)"

text \<open>The accumulators of the pass, with the lines written to the module's logger: the text
  that failed to parse and the exception.\<close>

record accumulators =
  error_counts :: "(string \<times> nat) list"
  error_timestamps :: "(date \<times> (string \<times> nat) list) list"
  retrieval_scores :: "json list"
  query_timestamps :: "ts_val list"
  vector_search_latencies :: "pyfloat list"
  rag_generation_latencies :: "pyfloat list"
  throughput_data :: "throughput_sample list"
  logged :: "(string \<times> error) list"

definition init_accumulators :: accumulators where
  "init_accumulators =
     \<lparr>error_counts = [], error_timestamps = [], retrieval_scores = [], query_timestamps = [],
      vector_search_latencies = [], rag_generation_latencies = [], throughput_data = [],
      logged = []\<rparr>"

text \<open>\<^verbatim>\<open>for result_str in results_list\<close>: what iterating the parsed value gives.\<close>

definition py_iter :: "json \<Rightarrow> error + json list" where
  "py_iter v =
     (case v of
        JArr xs \<Rightarrow> Inr xs
      | JObj kvs \<Rightarrow> Inr (map JStr (rev (remdups (rev (map fst kvs)))))
      | JStr s \<Rightarrow> Inr (map (\<lambda>c. JStr [c]) s)
      | _ \<Rightarrow> Inl (TypeError ''object is not iterable''))"

text \<open>\<^verbatim>\<open>json.loads(result_str)\<close> on an element: only a string can be parsed.\<close>

definition loads_element :: "json \<Rightarrow> error + json" where
  "loads_element v =
     (case v of
        JStr s \<Rightarrow> json_loads s
      | _ \<Rightarrow> Inl (TypeError ''the JSON object must be str, bytes or bytearray''))"

text \<open>\<^verbatim>\<open>result["score"]\<close>: the last pair of an object with that key.\<close>

definition subscript :: "json \<Rightarrow> string \<Rightarrow> error + json" where
  "subscript v k =
     (case v of
        JObj kvs \<Rightarrow> (case map_of (rev kvs) k of None \<Rightarrow> Inl (KeyError k) | Some x \<Rightarrow> Inr x)
      | _ \<Rightarrow> Inl (TypeError ''indices must be integers''))"

text \<open>The inner loop of the \<^verbatim>\<open>search_results\<close> branch. A score that was appended stays
  in the list when a later element raises.\<close>

fun append_scores :: "json list \<Rightarrow> json list \<Rightarrow> error option \<times> json list" where
  "append_scores [] scores = (None, scores)"
| "append_scores (result_str # rest) scores =
     (case loads_element result_str of
        Inl e \<Rightarrow> (Some e, scores)
      | Inr result \<Rightarrow>
          (case subscript result ''score'' of
             Inl e \<Rightarrow> (Some e, scores)
           | Inr score \<Rightarrow> append_scores rest (scores @ [score])))"

text \<open>The \<^verbatim>\<open>try\<close> block of the \<^verbatim>\<open>search_results\<close> branch with its handler.\<close>

definition search_results_branch :: "accumulators \<Rightarrow> string \<Rightarrow> accumulators" where
  "search_results_branch acc results =
     (case json_loads results of
        Inl e \<Rightarrow> acc\<lparr>logged := logged acc @ [(results, e)]\<rparr>
      | Inr v \<Rightarrow>
          (case py_iter v of
             Inl e \<Rightarrow> acc\<lparr>logged := logged acc @ [(results, e)]\<rparr>
           | Inr results_list \<Rightarrow>
               (case append_scores results_list (retrieval_scores acc) of
                  (None, scores) \<Rightarrow> acc\<lparr>retrieval_scores := scores\<rparr>
                | (Some e, scores) \<Rightarrow>
                    acc\<lparr>retrieval_scores := scores, logged := logged acc @ [(results, e)]\<rparr>)))"

text \<open>The first \<^verbatim>\<open>if\<close> of the loop body, for a record whose key is \<^verbatim>\<open>error\<close>:
  \<^verbatim>\<open>None\<close> is the \<^verbatim>\<open>continue\<close>.\<close>

definition error_branch :: "accumulators \<Rightarrow> log_dict \<Rightarrow> error + accumulators option" where
  "error_branch acc log =
     (case re_findall (ld_value log) of
        [] \<Rightarrow> Inr None
      | c # cs \<Rightarrow>
          let error_type = last (c # cs)
          in (case strptime_date (ld_timestamp log) of
                Inl e \<Rightarrow> Inl e
              | Inr day \<Rightarrow>
                  Inr (Some (acc\<lparr>error_counts := bump error_type (error_counts acc),
                                  error_timestamps := bump2 day error_type (error_timestamps acc)\<rparr>))))"

text \<open>The second \<^verbatim>\<open>if\<close>/\<^verbatim>\<open>elif\<close> chain. The value of a record is a string, and
  \<^verbatim>\<open>log["value"]["num_requests"]\<close> on a string is a type error.\<close>

definition key_branches :: "accumulators \<Rightarrow> log_dict \<Rightarrow> error + accumulators" where
  "key_branches acc log =
     (if ld_key log = ''search_results'' then Inr (search_results_branch acc (ld_value log))
      else if ld_key log = ''search_query''
      then Inr (acc\<lparr>query_timestamps := query_timestamps acc @ [ld_timestamp log]\<rparr>)
      else if ld_key log = ''vector_search_latency''
      then (case py_float (ld_value log) of
              Inl e \<Rightarrow> Inl e
            | Inr x \<Rightarrow> Inr (acc\<lparr>vector_search_latencies := vector_search_latencies acc @ [x]\<rparr>))
      else if ld_key log = ''rag_generation_latency''
      then (case py_float (ld_value log) of
              Inl e \<Rightarrow> Inl e
            | Inr x \<Rightarrow> Inr (acc\<lparr>rag_generation_latencies := rag_generation_latencies acc @ [x]\<rparr>))
      else if ld_key log = ''throughput''
      then Inl (TypeError ''string indices must be integers'')
      else Inr acc)"

definition process_log :: "accumulators \<Rightarrow> log_dict \<Rightarrow> error + accumulators" where
  "process_log acc log =
     (if ld_key log = ''error'' then
        (case error_branch acc log of
           Inl e \<Rightarrow> Inl e
         | Inr None \<Rightarrow> Inr acc
         | Inr (Some acc') \<Rightarrow> key_branches acc' log)
      else key_branches acc log)"

fun process_loop :: "accumulators \<Rightarrow> log_dict list \<Rightarrow> error + accumulators" where
  "process_loop acc [] = Inr acc"
| "process_loop acc (l # ls) =
     (case process_log acc l of
        Inl e \<Rightarrow> Inl e
      | Inr acc' \<Rightarrow> process_loop acc' ls)"

text \<open>The returned dictionary. \<^verbatim>\<open>stacked_bar_data\<close> is computed by the source and not
  returned.\<close>

record aggregate =
  labels :: "string list"
  datasets :: "(string \<times> nat list) list"
  pieChartData :: "(string \<times> nat) list"
  agg_retrieval_scores :: "json list"
  agg_query_timestamps :: "ts_val list"
  agg_vector_search_latencies :: "pyfloat list"
  agg_rag_generation_latencies :: "pyfloat list"
  agg_throughput_data :: "throughput_sample list"

definition make_aggregate :: "accumulators \<Rightarrow> aggregate" where
  "make_aggregate acc =
     \<lparr>labels = map (\<lambda>(day, error_dict). str_date day) (error_timestamps acc),
      datasets = map (\<lambda>(error_type, n).
                   (''Error Code '' @ error_type,
                    map (\<lambda>(day, error_dict). get0 error_dict error_type) (error_timestamps acc)))
                   (error_counts acc),
      pieChartData = error_counts acc,
      agg_retrieval_scores = retrieval_scores acc,
      agg_query_timestamps = query_timestamps acc,
      agg_vector_search_latencies = vector_search_latencies acc,
      agg_rag_generation_latencies = rag_generation_latencies acc,
      agg_throughput_data = throughput_data acc\<rparr>"

text \<open>\<^verbatim>\<open>process_logs\<close>: the aggregate and the lines logged, or the exception that left
  the pass.\<close>

definition process_logs :: "log_dict list \<Rightarrow> error + aggregate \<times> (string \<times> error) list" where
  "process_logs ls =
     (case process_loop init_accumulators ls of
        Inl e \<Rightarrow> Inl e
      | Inr acc \<Rightarrow> Inr (make_aggregate acc, logged acc))"

section \<open>The facade \<^verbatim>\<open>KVLoggingSingleton\<close>\<close>

text \<open>The configured backend with its stored data. \<^verbatim>\<open>get_instance\<close> builds a new
  provider on it for every call: a relational provider starts with no connection.\<close>

datatype provider = Local sql_provider | Postgres sql_provider | Redis redis_provider

fun get_instance :: "provider \<Rightarrow> provider" where
  "get_instance (Local p) = Local (p\<lparr>conn := False\<rparr>)"
| "get_instance (Postgres p) = Postgres (p\<lparr>conn := False\<rparr>)"
| "get_instance (Redis p) = Redis p"

fun aenter :: "provider \<Rightarrow> provider" where
  "aenter (Local p) = Local (sql_aenter p)"
| "aenter (Postgres p) = Postgres (sql_aenter p)"
| "aenter (Redis p) = Redis p"

fun aexit :: "provider \<Rightarrow> provider" where
  "aexit (Local p) = Local (sql_close p)"
| "aexit (Postgres p) = Postgres (sql_close p)"
| "aexit (Redis p) = Redis p"

text \<open>The method the provider's class has under each name. The Redis provider has no
  \<^verbatim>\<open>log_throughput\<close> and no \<^verbatim>\<open>get_throughput_data\<close>.\<close>

fun provider_log ::
  "provider \<Rightarrow> instant \<Rightarrow> uuid \<Rightarrow> string \<Rightarrow> string \<Rightarrow> bool \<Rightarrow> (error + unit) \<times> provider" where
  "provider_log (Local p) now log_id k v i = apsnd Local (Local_log p now log_id k v i)"
| "provider_log (Postgres p) now log_id k v i = apsnd Postgres (Postgres_log p now log_id k v i)"
| "provider_log (Redis p) now log_id k v i = apsnd Redis (Redis_log p now log_id k v i)"

fun provider_get_run_info ::
  "provider \<Rightarrow> int \<Rightarrow> string option \<Rightarrow> (error + RunInfo list) option" where
  "provider_get_run_info (Local p) limit f = Some (Local_get_run_info p limit f)"
| "provider_get_run_info (Postgres p) limit f = Some (Postgres_get_run_info p limit f)"
| "provider_get_run_info (Redis p) limit f = Redis_get_run_info p limit f"

fun provider_get_logs :: "provider \<Rightarrow> uuid list \<Rightarrow> int \<Rightarrow> error + log_dict list" where
  "provider_get_logs (Local p) run_ids n = Local_get_logs p run_ids n"
| "provider_get_logs (Postgres p) run_ids n = Postgres_get_logs p run_ids n"
| "provider_get_logs (Redis p) run_ids n = Redis_get_logs p run_ids n"

fun provider_log_throughput ::
  "provider \<Rightarrow> instant \<Rightarrow> int \<Rightarrow> string \<Rightarrow> (error + unit) \<times> provider" where
  "provider_log_throughput (Local p) t n r = apsnd Local (Local_log_throughput p t n r)"
| "provider_log_throughput (Postgres p) t n r = apsnd Postgres (Postgres_log_throughput p t n r)"
| "provider_log_throughput (Redis p) t n r = (Inl (AttributeError ''log_throughput''), Redis p)"

fun provider_get_throughput_data ::
  "provider \<Rightarrow> instant option \<Rightarrow> instant option \<Rightarrow> error + throughput_sample list" where
  "provider_get_throughput_data (Local p) a b = Local_get_throughput_data p a b"
| "provider_get_throughput_data (Postgres p) a b = Postgres_get_throughput_data p a b"
| "provider_get_throughput_data (Redis p) a b = Inl (AttributeError ''get_throughput_data'')"

text \<open>A line of \<^verbatim>\<open>logger.error\<close>: the fixed text and the exception.\<close>

type_synonym log_line = "string \<times> error"

text \<open>\<^verbatim>\<open>log\<close> and \<^verbatim>\<open>log_throughput\<close>: \<^verbatim>\<open>async with\<close> inside \<^verbatim>\<open>try\<close>; the
  handler of \<^verbatim>\<open>Exception\<close> writes a line to the logger. The result is the outcome the
  caller sees, the backend after the call and the logger's lines.\<close>

definition KVLoggingSingleton_log ::
  "provider \<Rightarrow> log_line list \<Rightarrow> instant \<Rightarrow> uuid \<Rightarrow> string \<Rightarrow> string \<Rightarrow> bool
     \<Rightarrow> (error + unit) \<times> provider \<times> log_line list" where
  "KVLoggingSingleton_log backend logger now log_id k v is_info_log =
     (let provider = aenter (get_instance backend);
          (r, provider') = provider_log provider now log_id k v is_info_log;
          backend' = aexit provider'
      in case r of
           Inl e \<Rightarrow> (Inr (), backend', logger @ [(''Error logging data: '', e)])
         | Inr u \<Rightarrow> (Inr (), backend', logger))"

definition KVLoggingSingleton_log_throughput ::
  "provider \<Rightarrow> log_line list \<Rightarrow> instant \<Rightarrow> int \<Rightarrow> string
     \<Rightarrow> (error + unit) \<times> provider \<times> log_line list" where
  "KVLoggingSingleton_log_throughput backend logger t num_requests request_type =
     (let provider = aenter (get_instance backend);
          (r, provider') = provider_log_throughput provider t num_requests request_type;
          backend' = aexit provider'
      in case r of
           Inl e \<Rightarrow> (Inr (), backend', logger @ [(''Error logging throughput data: '', e)])
         | Inr u \<Rightarrow> (Inr (), backend', logger))"

text \<open>The read operations: \<^verbatim>\<open>async with\<close> and no handler. \<^verbatim>\<open>__aexit__\<close> closes the
  connection and returns \<^verbatim>\<open>None\<close>, so an exception of the body goes on to the caller.\<close>

definition KVLoggingSingleton_get_run_info ::
  "provider \<Rightarrow> int \<Rightarrow> string option \<Rightarrow> (error + RunInfo list) option" where
  "KVLoggingSingleton_get_run_info backend limit log_type_filter =
     provider_get_run_info (aenter (get_instance backend)) limit log_type_filter"

definition KVLoggingSingleton_get_logs ::
  "provider \<Rightarrow> uuid list \<Rightarrow> int \<Rightarrow> error + log_dict list" where
  "KVLoggingSingleton_get_logs backend run_ids limit_per_run =
     provider_get_logs (aenter (get_instance backend)) run_ids limit_per_run"

definition KVLoggingSingleton_get_throughput_data ::
  "provider \<Rightarrow> instant option \<Rightarrow> instant option \<Rightarrow> error + throughput_sample list" where
  "KVLoggingSingleton_get_throughput_data backend start_time end_time =
     provider_get_throughput_data (aenter (get_instance backend)) start_time end_time"

subsection \<open>\<^verbatim>\<open>get_analytics\<close>\<close>

text \<open>A call with keyword arguments: every keyword must be the name of a parameter.\<close>

definition bind_keywords :: "string list \<Rightarrow> (string \<times> 'v) list \<Rightarrow> error + unit" where
  "bind_keywords params kwargs =
     (case filter (\<lambda>(k, v). k \<notin> set params) kwargs of
        [] \<Rightarrow> Inr ()
      | (k, v) # _ \<Rightarrow> Inl (TypeError (''got an unexpected keyword argument '' @ k)))"

text \<open>\<^verbatim>\<open>KVLoggingSingleton.get_run_info\<close> called with keywords whose values are optional
  strings; \<^verbatim>\<open>limit\<close> keeps its default 10.\<close>

definition call_get_run_info ::
  "provider \<Rightarrow> (string \<times> string option) list \<Rightarrow> (error + RunInfo list) option" where
  "call_get_run_info backend kwargs =
     (case bind_keywords [''limit'', ''log_type_filter''] kwargs of
        Inl e \<Rightarrow> Some (Inl e)
      | Inr u \<Rightarrow>
          KVLoggingSingleton_get_run_info backend 10
            (case map_of kwargs ''log_type_filter'' of None \<Rightarrow> None | Some f \<Rightarrow> f))"

text \<open>The dictionary returned when there is no run has empty values throughout.\<close>

definition empty_aggregate :: aggregate where
  "empty_aggregate =
     \<lparr>labels = [], datasets = [], pieChartData = [], agg_retrieval_scores = [],
      agg_query_timestamps = [], agg_vector_search_latencies = [],
      agg_rag_generation_latencies = [], agg_throughput_data = []\<rparr>"

definition get_analytics :: "provider \<Rightarrow> string option \<Rightarrow> (error + aggregate) option" where
  "get_analytics backend pipeline_type =
     (case call_get_run_info backend [(''pipeline_type'', pipeline_type)] of
        None \<Rightarrow> None
      | Some (Inl e) \<Rightarrow> Some (Inl e)
      | Some (Inr run_info) \<Rightarrow>
          let run_ids = map run_id run_info
          in if run_ids = [] then Some (Inr empty_aggregate)
             else
               (case KVLoggingSingleton_get_logs backend run_ids 100 of
                  Inl e \<Rightarrow> Some (Inl e)
                | Inr ls \<Rightarrow>
                    (case KVLoggingSingleton_get_throughput_data backend None None of
                       Inl e \<Rightarrow> Some (Inl e)
                     | Inr throughput \<Rightarrow>
                         (case process_logs ls of
                            Inl e \<Rightarrow> Some (Inl e)
                          | Inr (processed_logs, lines) \<Rightarrow>
                              Some (Inr (processed_logs\<lparr>agg_throughput_data := throughput\<rparr>))))))"

section \<open>Stored records and the most recent of them\<close>

text \<open>A relational backend with empty tables, on an engine that leaves rows with equal
  timestamps in the order it finds them.\<close>

definition empty_sql :: sql_provider where
  "empty_sql = \<lparr>conn = False, logs = [], logs_pipeline_info = [], throughput_logs = [],
                 tie_info = (\<lambda>r. 0), tie_rank = (\<lambda>r. 0), tie_final = (\<lambda>r. 0)\<rparr>"

text \<open>A Redis backend with nothing stored, and the one that two info logs leave: run
  \<^verbatim>\<open>a\<close> of type \<^verbatim>\<open>rag\<close> written at instant 1, run \<^verbatim>\<open>b\<close> of type
  \<^verbatim>\<open>search\<close> written at instant 2.\<close>

definition empty_redis :: redis_provider where
  "empty_redis = \<lparr>r_lists = (\<lambda>k. []), r_hash = Map.empty, r_zset = []\<rparr>"

definition two_runs :: redis_provider where
  "two_runs = snd (Redis_log (snd (Redis_log empty_redis 1 ''a'' ''pipeline_type'' ''rag'' True))
                     2 ''b'' ''pipeline_type'' ''search'' True)"

text \<open>The record of the analytics scenario, \<^verbatim>\<open>{key: "error", value: "Request failed with
  code 503"}\<close>, with a timestamp and a run; and an error record with any value.\<close>

definition failed_503 :: "ts_val \<Rightarrow> uuid \<Rightarrow> log_dict" where
  "failed_503 t r =
     \<lparr>ld_timestamp = t, ld_log_id = r, ld_key = ''error'',
      ld_value = ''Request failed with code 503'', ld_rn = None\<rparr>"

definition error_record :: "ts_val \<Rightarrow> string \<Rightarrow> log_dict" where
  "error_record t v = \<lparr>ld_timestamp = t, ld_log_id = ''run-1'', ld_key = ''error'', ld_value = v, ld_rn = None\<rparr>"

text \<open>Values of \<^verbatim>\<open>search_results\<close> records: the texts \<^verbatim>\<open>{"score":0.9}\<close> and
  \<^verbatim>\<open>{"score":0.4}\<close>, the same as JSON string literals, the literal \<^verbatim>\<open>"oops"\<close>
  (whose content is not JSON), and arrays of them: \<^verbatim>\<open>["oops", "{\"score\":0.9}"]\<close> and
  \<^verbatim>\<open>["{\"score\":0.9}", "oops", "{\"score\":0.4}"]\<close>.\<close>

definition score_09 :: string where
  "score_09 = ''{'' @ [CHR 0x22] @ ''score'' @ [CHR 0x22] @ '':0.9}''"

definition score_04 :: string where
  "score_04 = ''{'' @ [CHR 0x22] @ ''score'' @ [CHR 0x22] @ '':0.4}''"

definition quoted_score_09 :: string where
  "quoted_score_09 = [CHR 0x22] @ ''{'' @ [CHR 0x5C, CHR 0x22] @ ''score'' @ [CHR 0x5C, CHR 0x22] @ '':0.9}'' @ [CHR 0x22]"

definition quoted_score_04 :: string where
  "quoted_score_04 = [CHR 0x22] @ ''{'' @ [CHR 0x5C, CHR 0x22] @ ''score'' @ [CHR 0x5C, CHR 0x22] @ '':0.4}'' @ [CHR 0x22]"

definition quoted_oops :: string where
  "quoted_oops = [CHR 0x22] @ ''oops'' @ [CHR 0x22]"

definition malformed_first :: string where
  "malformed_first = ''['' @ quoted_oops @ '', '' @ quoted_score_09 @ '']''"

definition malformed_middle :: string where
  "malformed_middle = ''['' @ quoted_score_09 @ '', '' @ quoted_oops @ '', '' @ quoted_score_04 @ '']''"

definition search_record :: "string \<Rightarrow> log_dict" where
  "search_record v =
     \<lparr>ld_timestamp = TsText ''2024-03-01 10:00:00'', ld_log_id = ''run-1'',
      ld_key = ''search_results'', ld_value = v, ld_rn = None\<rparr>"

definition latency_record :: "string \<Rightarrow> string \<Rightarrow> log_dict" where
  "latency_record k v =
     \<lparr>ld_timestamp = TsText ''2024-03-01 10:00:00'', ld_log_id = ''run-1'',
      ld_key = k, ld_value = v, ld_rn = None\<rparr>"

text \<open>The ordinary records stored for a run, in the order of the backend's storage (the rows
  of the table as inserted; the Redis list from its head), each with its write timestamp and
  the dictionary the backend returns for it, without the ranking column.\<close>

fun stored_records :: "provider \<Rightarrow> uuid \<Rightarrow> (instant \<times> log_dict) list" where
  "stored_records (Local p) r =
     map (\<lambda>x. (lr_timestamp x, Local_dict None x)) (filter (\<lambda>x. lr_log_id x = r) (logs p))"
| "stored_records (Postgres p) r =
     map (\<lambda>x. (lr_timestamp x, Postgres_dict None x)) (filter (\<lambda>x. lr_log_id x = r) (logs p))"
| "stored_records (Redis p) r =
     map (\<lambda>e. (re_timestamp e, Redis_dict e)) (r_lists p (log_key_of r))"

text \<open>Every element of the first list is in the second, as often at least.\<close>

fun contained :: "'a list \<Rightarrow> 'a list \<Rightarrow> bool" where
  "contained [] ys = True"
| "contained (x # xs) ys = (x \<in> set ys \<and> contained xs (remove1 x ys))"

text \<open>Following the specification's words: \<^verbatim>\<open>sel\<close> is a choice of the \<^verbatim>\<open>n\<close> most recent
  of the stored records by write timestamp, newest first. Its records are stored records, and
  its timestamps are the first \<^verbatim>\<open>n\<close> of the stored timestamps in descending order. Which of
  several records with the same timestamp is chosen is left open.\<close>

definition is_most_recent :: "nat \<Rightarrow> (instant \<times> 'a) list \<Rightarrow> (instant \<times> 'a) list \<Rightarrow> bool" where
  "is_most_recent n stored sel =
     (contained sel stored \<and> map fst sel = take n (sort_key (\<lambda>t. - t) (map fst stored)))"







text \<open>Seven ordinary records of run \<^verbatim>\<open>a\<close> with the timestamps 1, 1, 2, 2, 1, 1, 2, in
  a relational table whose engine ranks rows with equal timestamps by \<^verbatim>\<open>tie\<close>.\<close>

definition seven_tied :: "(log_row \<Rightarrow> nat) \<Rightarrow> sql_provider" where
  "seven_tied tie =
     empty_sql\<lparr>logs := map (\<lambda>(t, k). \<lparr>lr_timestamp = t, lr_log_id = ''a'', lr_key = k, lr_value = ''v''\<rparr>)
                         [(1, ''k0''), (1, ''k1''), (2, ''k2''), (2, ''k3''), (1, ''k4''),
                          (1, ''k5''), (2, ''k6'')],
               tie_rank := tie\<rparr>"

text \<open>An engine that puts the record with key \<^verbatim>\<open>k3\<close> before the others of its
  timestamp; and the same seven records written to Redis, in that order.\<close>

definition prefers_k3 :: "log_row \<Rightarrow> nat" where
  "prefers_k3 x = (if lr_key x = ''k3'' then 0 else 1)"


section \<open>Properties\<close>

text \<open>\<^verbatim>\<open>py_in\<close> is the substring relation.\<close>

lemma startswith_iff: "startswith s sub \<longleftrightarrow> (\<exists>q. s = sub @ q)"
  by (induction s sub rule: startswith.induct) auto

lemma py_in_iff: "py_in sub s \<longleftrightarrow> (\<exists>p q. s = p @ sub @ q)"
proof (induction s)
  case Nil
  then show ?case by auto
next
  case (Cons x xs)
  show ?case
  proof
    assume "py_in sub (x # xs)"
    then consider "startswith (x # xs) sub" | "py_in sub xs" by auto
    then show "\<exists>p q. x # xs = p @ sub @ q"
    proof cases
      case 1
      then obtain q where "x # xs = sub @ q" by (auto simp: startswith_iff)
      then have "x # xs = [] @ sub @ q" by simp
      then show ?thesis by blast
    next
      case 2
      then obtain p q where "xs = p @ sub @ q" using Cons.IH by blast
      then have "x # xs = (x # p) @ sub @ q" by simp
      then show ?thesis by blast
    qed
  next
    assume "\<exists>p q. x # xs = p @ sub @ q"
    then obtain p q where pq: "x # xs = p @ sub @ q" by blast
    show "py_in sub (x # xs)"
    proof (cases p)
      case Nil
      with pq have "startswith (x # xs) sub" by (auto simp: startswith_iff)
      then show ?thesis by simp
    next
      case (Cons a p')
      with pq have "xs = p' @ sub @ q" by simp
      then have "py_in sub xs" using Cons.IH by blast
      then show ?thesis by simp
    qed
  qed
qed

text \<open>C7: on every backend, an info log whose key does not contain \<^verbatim>\<open>type\<close> raises
  \<^verbatim>\<open>ValueError\<close> and leaves the backend, with its event log and its run information, as
  it was.\<close>

theorem info_log_without_type_is_rejected:
  "\<not> py_in ''type'' k \<Longrightarrow>
     \<exists>msg. provider_log backend now log_id k v True = (Inl (ValueError msg), backend)"
  by (cases backend) (simp_all add: Local_log_def Postgres_log_def Redis_log_def)

theorem info_log_without_type_is_rejected_witness:
  "\<not> py_in ''type'' ''pipeline'' \<and>
   (\<exists>msg. provider_log (Redis \<lparr>r_lists = (\<lambda>k. []), r_hash = Map.empty, r_zset = []\<rparr>) 17
             ''run-1'' ''pipeline'' ''rag'' True
           = (Inl (ValueError msg), Redis \<lparr>r_lists = (\<lambda>k. []), r_hash = Map.empty, r_zset = []\<rparr>))"
proof -
  have h: "\<not> py_in ''type'' ''pipeline''" by simp
  show ?thesis
    using h info_log_without_type_is_rejected [OF h, of "Redis \<lparr>r_lists = (\<lambda>k. []), r_hash = Map.empty, r_zset = []\<rparr>" 17 "''run-1''" "''rag''"]
    by blast
qed

text \<open>C3: with an empty list of run identifiers the relational providers raise
  \<^verbatim>\<open>ValueError\<close>; the Redis provider returns the empty list, for every limit.\<close>

theorem redis_get_logs_no_run_ids:
  "provider_get_logs (Redis p) [] n = Inr [] \<and>
   KVLoggingSingleton_get_logs (Redis p) [] n = Inr [] \<and>
   KVLoggingSingleton_get_logs (Local q) [] n = Inl (ValueError ''No run ids provided.'') \<and>
   KVLoggingSingleton_get_logs (Postgres q) [] n = Inl (ValueError ''No run ids provided.'')"
  by (simp add: Redis_get_logs_def KVLoggingSingleton_get_logs_def Local_get_logs_def Postgres_get_logs_def)

text \<open>C2: \<^verbatim>\<open>get_analytics\<close> calls \<^verbatim>\<open>get_run_info\<close> with the keyword
  \<^verbatim>\<open>pipeline_type\<close>, which is not one of its parameters: on every backend and for every
  pipeline type the call raises \<^verbatim>\<open>TypeError\<close> and no aggregate is returned.\<close>

theorem get_analytics_raises_TypeError:
  "get_analytics backend pipeline_type =
     Some (Inl (TypeError ''got an unexpected keyword argument pipeline_type''))"
  by (simp add: get_analytics_def call_get_run_info_def bind_keywords_def)


text \<open>C6: whatever exception the provider raises during \<^verbatim>\<open>log\<close> or
  \<^verbatim>\<open>log_throughput\<close>, the facade writes it to the logger and returns normally, with the
  backend as the provider left it; an exception raised by the provider during
  \<^verbatim>\<open>get_run_info\<close>, \<^verbatim>\<open>get_logs\<close> or \<^verbatim>\<open>get_throughput_data\<close> is the outcome of
  the facade's call.\<close>

theorem facade_swallows_writes_and_propagates_reads:
  "(provider_log (aenter (get_instance backend)) now log_id k v i = (Inl e1, p1) \<longrightarrow>
      KVLoggingSingleton_log backend logger now log_id k v i
        = (Inr (), aexit p1, logger @ [(''Error logging data: '', e1)])) \<and>
   (provider_log_throughput (aenter (get_instance backend)) t n rt = (Inl e2, p2) \<longrightarrow>
      KVLoggingSingleton_log_throughput backend logger t n rt
        = (Inr (), aexit p2, logger @ [(''Error logging throughput data: '', e2)])) \<and>
   fst (KVLoggingSingleton_log backend logger now log_id k v i) = Inr () \<and>
   fst (KVLoggingSingleton_log_throughput backend logger t n rt) = Inr () \<and>
   (provider_get_run_info (aenter (get_instance backend)) limit f = Some (Inl e3) \<longrightarrow>
      KVLoggingSingleton_get_run_info backend limit f = Some (Inl e3)) \<and>
   (provider_get_logs (aenter (get_instance backend)) run_ids m = Inl e4 \<longrightarrow>
      KVLoggingSingleton_get_logs backend run_ids m = Inl e4) \<and>
   (provider_get_throughput_data (aenter (get_instance backend)) a b = Inl e5 \<longrightarrow>
      KVLoggingSingleton_get_throughput_data backend a b = Inl e5)"
  by (auto simp: KVLoggingSingleton_log_def KVLoggingSingleton_log_throughput_def
        KVLoggingSingleton_get_run_info_def KVLoggingSingleton_get_logs_def
        KVLoggingSingleton_get_throughput_data_def Let_def split: prod.splits sum.splits)

lemma entered_Postgres: "aenter (get_instance (Postgres empty_sql)) = Postgres (empty_sql\<lparr>conn := True\<rparr>)"
  by (simp add: empty_sql_def sql_aenter_def sql_init_def)

theorem facade_swallows_writes_and_propagates_reads_witness:
  "provider_log (aenter (get_instance (Postgres empty_sql))) 5 ''run-1'' ''pipeline'' ''rag'' True
     = (Inl (ValueError ''Info log key must contain the string `type`.''), Postgres (empty_sql\<lparr>conn := True\<rparr>)) \<and>
   KVLoggingSingleton_log (Postgres empty_sql) [] 5 ''run-1'' ''pipeline'' ''rag'' True
     = (Inr (), Postgres empty_sql,
        [(''Error logging data: '', ValueError ''Info log key must contain the string `type`.'')]) \<and>
   provider_log_throughput (aenter (get_instance (Postgres empty_sql))) 100 3 ''search''
     = (Inl (AttributeError ''connection''), Postgres (empty_sql\<lparr>conn := True\<rparr>)) \<and>
   KVLoggingSingleton_log_throughput (Postgres empty_sql) [] 100 3 ''search''
     = (Inr (), Postgres empty_sql, [(''Error logging throughput data: '', AttributeError ''connection'')]) \<and>
   provider_get_run_info (aenter (get_instance (Postgres empty_sql))) 10 None
     = Some (Inl (PostgresError ''parameters do not match the statement'')) \<and>
   KVLoggingSingleton_get_run_info (Postgres empty_sql) 10 None
     = Some (Inl (PostgresError ''parameters do not match the statement'')) \<and>
   provider_get_logs (aenter (get_instance (Postgres empty_sql))) [] 3
     = Inl (ValueError ''No run ids provided.'') \<and>
   KVLoggingSingleton_get_logs (Postgres empty_sql) [] 3 = Inl (ValueError ''No run ids provided.'') \<and>
   provider_get_throughput_data (aenter (get_instance (Postgres empty_sql))) None None
     = Inl (AttributeError ''connection'') \<and>
   KVLoggingSingleton_get_throughput_data (Postgres empty_sql) None None
     = Inl (AttributeError ''connection'')"
proof -
  have h1: "provider_log (aenter (get_instance (Postgres empty_sql))) 5 ''run-1'' ''pipeline'' ''rag'' True
     = (Inl (ValueError ''Info log key must contain the string `type`.''), Postgres (empty_sql\<lparr>conn := True\<rparr>))"
    unfolding entered_Postgres by (simp add: Postgres_log_def)
  have h2: "provider_log_throughput (aenter (get_instance (Postgres empty_sql))) 100 3 ''search''
     = (Inl (AttributeError ''connection''), Postgres (empty_sql\<lparr>conn := True\<rparr>))"
    unfolding entered_Postgres by (simp add: Postgres_log_throughput_def)
  have h3: "provider_get_run_info (aenter (get_instance (Postgres empty_sql))) 10 None
     = Some (Inl (PostgresError ''parameters do not match the statement''))"
    unfolding entered_Postgres by (simp add: Postgres_get_run_info_def pg_params_ok_def empty_sql_def)
  have h4: "provider_get_logs (aenter (get_instance (Postgres empty_sql))) [] 3
     = Inl (ValueError ''No run ids provided.'')"
    unfolding entered_Postgres by (simp add: Postgres_get_logs_def)
  have h5: "provider_get_throughput_data (aenter (get_instance (Postgres empty_sql))) None None
     = Inl (AttributeError ''connection'')"
    unfolding entered_Postgres by (simp add: Postgres_get_throughput_data_def)
  have ex: "aexit (Postgres (empty_sql\<lparr>conn := True\<rparr>)) = Postgres empty_sql"
    by (simp add: sql_close_def empty_sql_def)
  show ?thesis
    using facade_swallows_writes_and_propagates_reads
      [of "Postgres empty_sql" 5 "''run-1''" "''pipeline''" "''rag''" True
          "ValueError ''Info log key must contain the string `type`.''"
          "Postgres (empty_sql\<lparr>conn := True\<rparr>)" "[]" 100 3 "''search''"
          "AttributeError ''connection''" "Postgres (empty_sql\<lparr>conn := True\<rparr>)"
          10 None "PostgresError ''parameters do not match the statement''"
          "[]" 3 "ValueError ''No run ids provided.''" None None "AttributeError ''connection''"]
      h1 h2 h3 h4 h5 ex
    by simp
qed

text \<open>C4: on the Postgres backend \<^verbatim>\<open>get_run_info\<close> without a filter (\<^verbatim>\<open>None\<close> or the
  empty string) sends a statement that uses \<^verbatim>\<open>$2\<close> and not \<^verbatim>\<open>$1\<close> with one argument, and
  fails for every limit and every table; the SQLite provider answers the same call with the
  rows newest first, cut at the limit.\<close>

theorem postgres_get_run_info_without_filter_fails:
  "KVLoggingSingleton_get_run_info (Postgres p) limit None
     = Some (Inl (PostgresError ''parameters do not match the statement'')) \<and>
   KVLoggingSingleton_get_run_info (Postgres p) limit (Some '''')
     = Some (Inl (PostgresError ''parameters do not match the statement'')) \<and>
   KVLoggingSingleton_get_run_info (Local p) limit None
     = Some (Inr (map to_RunInfo
          (sqlite_limit (order_by_desc (tie_info p) ir_timestamp (logs_pipeline_info p)) limit)))"
  by (simp add: KVLoggingSingleton_get_run_info_def Postgres_get_run_info_def Local_get_run_info_def
       pg_params_ok_def sqlite_params_ok_def sql_aenter_def sql_init_def)

text \<open>C5: on every backend \<^verbatim>\<open>log_throughput\<close> raises inside the provider, so the facade
  logs the exception and the stored data stay as they were: reading after the write gives what
  reading before it gave, and on an empty store \<^verbatim>\<open>get_throughput_data(t-1, t+1)\<close> gives
  no sample on SQLite and raises on Postgres and Redis.\<close>

theorem log_throughput_never_stores_a_sample:
  "(\<exists>e. KVLoggingSingleton_log_throughput backend logger t n rt
         = (Inr (), get_instance backend, logger @ [(''Error logging throughput data: '', e)])) \<and>
   KVLoggingSingleton_get_throughput_data (get_instance backend) a b
     = KVLoggingSingleton_get_throughput_data backend a b \<and>
   KVLoggingSingleton_get_throughput_data (Local empty_sql) (Some (t - 1)) (Some (t + 1)) = Inr [] \<and>
   KVLoggingSingleton_get_throughput_data (Postgres p) (Some (t - 1)) (Some (t + 1))
     = Inl (AttributeError ''connection'') \<and>
   KVLoggingSingleton_get_throughput_data (Redis r) (Some (t - 1)) (Some (t + 1))
     = Inl (AttributeError ''get_throughput_data'')"
  by (cases backend)
     (auto simp: KVLoggingSingleton_log_throughput_def KVLoggingSingleton_get_throughput_data_def
        Local_log_throughput_def Postgres_log_throughput_def aiosqlite_execute_args_ok_def
        Local_get_throughput_data_def Postgres_get_throughput_data_def
        sql_aenter_def sql_init_def sql_close_def empty_sql_def)

subsection \<open>The Redis batch loop\<close>

lemma redis_range_nonempty_start: "redis_range xs (int start) stop \<noteq> [] \<Longrightarrow> start < length xs"
  by (auto simp: redis_range_def Let_def split: if_splits)

lemma zrevrange_nonempty: "zrevrange self (int start) stop \<noteq> [] \<Longrightarrow> start < length (r_zset self)"
  unfolding zrevrange_def by (drule redis_range_nonempty_start) simp

lemma scan_batch_length:
  "scan_batch self limit f ids acc = Inr acc' \<Longrightarrow> int (length acc) < limit \<Longrightarrow> int (length acc') \<le> limit"
proof (induction ids arbitrary: acc)
  case Nil
  then show ?case by simp
next
  case (Cons a ids)
  from Cons.prems(1) obtain e lt where e: "r_hash self a = Some e" and lt: "re_log_type e = Some lt"
    by (auto split: option.splits)
  define acc1 where "acc1 = (if truthy_str f
                      then (if Some lt = f
                            then acc @ [\<lparr>run_id = re_log_id e, log_type = lt\<rparr>]
                            else acc)
                      else acc @ [\<lparr>run_id = re_log_id e, log_type = lt\<rparr>])"
  have len1: "int (length acc1) \<le> limit" using Cons.prems(2) by (auto simp: acc1_def)
  from Cons.prems(1) e lt have r: "(if limit \<le> int (length acc1) then Inr acc1 else scan_batch self limit f ids acc1) = Inr acc'"
    unfolding acc1_def by (auto simp: Let_def split: if_splits)
  show ?case
  proof (cases "limit \<le> int (length acc1)")
    case True
    with r len1 show ?thesis by simp
  next
    case False
    with r have "scan_batch self limit f ids acc1 = Inr acc'" by simp
    from Cons.IH[OF this] False show ?thesis by simp
  qed
qed

lemma run_info_loop_terminates:
  "\<exists>r. run_info_loop self limit f start acc = Some r"
proof (induction "length (r_zset self) - start" arbitrary: start acc rule: less_induct)
  case less
  show ?case
  proof (cases "int (length acc) < limit")
    case False
    then show ?thesis by (subst run_info_loop.simps) simp
  next
    case True
    show ?thesis
    proof (cases "zrevrange self (int start) (int start + 100 - 1) = []")
      case e: True
      with True show ?thesis by (subst run_info_loop.simps) simp
    next
      case ne: False
      then have lt: "start < length (r_zset self)" by (rule zrevrange_nonempty)
      show ?thesis
      proof (cases "scan_batch self limit f (zrevrange self (int start) (int start + 100 - 1)) acc")
        case (Inl e)
        with True ne show ?thesis by (subst run_info_loop.simps) simp
      next
        case (Inr acc')
        from lt have "length (r_zset self) - (start + 100) < length (r_zset self) - start" by simp
        from less[OF this] obtain r where "run_info_loop self limit f (start + 100) acc' = Some r" by blast
        with True ne Inr show ?thesis by (subst run_info_loop.simps) simp
      qed
    qed
  qed
qed

lemma run_info_loop_length:
  "run_info_loop self limit f start acc = Some (Inr l) \<Longrightarrow> int (length acc) \<le> limit \<Longrightarrow> int (length l) \<le> limit"
proof (induction "length (r_zset self) - start" arbitrary: start acc rule: less_induct)
  case less
  show ?case
  proof (cases "int (length acc) < limit")
    case False
    with less.prems show ?thesis by (subst (asm) run_info_loop.simps) simp
  next
    case True
    show ?thesis
    proof (cases "zrevrange self (int start) (int start + 100 - 1) = []")
      case e: True
      with True less.prems show ?thesis by (subst (asm) run_info_loop.simps) simp
    next
      case ne: False
      then have lt: "start < length (r_zset self)" by (rule zrevrange_nonempty)
      show ?thesis
      proof (cases "scan_batch self limit f (zrevrange self (int start) (int start + 100 - 1)) acc")
        case (Inl e)
        with True ne less.prems(1) show ?thesis by (subst (asm) run_info_loop.simps) simp
      next
        case (Inr acc')
        from lt have m: "length (r_zset self) - (start + 100) < length (r_zset self) - start" by simp
        from True ne Inr less.prems(1) have "run_info_loop self limit f (start + 100) acc' = Some (Inr l)"
          by (subst (asm) run_info_loop.simps) simp
        moreover have "int (length acc') \<le> limit" using scan_batch_length[OF Inr True] .
        ultimately show ?thesis using less.hyps[OF m] by blast
      qed
    qed
  qed
qed

text \<open>C10: for every Redis store, every filter and every limit of at least 1 the batch loop of
  \<^verbatim>\<open>get_run_info\<close> ends, from any batch start and any list collected so far; a batch
  that starts at or beyond the size of the sorted set is empty; the list the loop leaves has at
  most \<^verbatim>\<open>limit\<close> entries, and so has the list returned.\<close>

theorem redis_get_run_info_terminates:
  "1 \<le> limit \<Longrightarrow>
     (\<exists>r. run_info_loop self limit f start acc = Some r) \<and>
     (zrevrange self (int (length (r_zset self) + start)) (int (length (r_zset self) + start) + 100 - 1) = []) \<and>
     (case run_info_loop self limit f 0 [] of
        Some (Inr l) \<Rightarrow> int (length l) \<le> limit | _ \<Rightarrow> True) \<and>
     (\<exists>res. Redis_get_run_info self limit f = Some res \<and>
            (case res of Inl e \<Rightarrow> True | Inr l \<Rightarrow> int (length l) \<le> limit))"
proof (intro conjI)
  assume lim: "1 \<le> limit"
  show "\<exists>r. run_info_loop self limit f start acc = Some r" by (rule run_info_loop_terminates)
  show "zrevrange self (int (length (r_zset self) + start)) (int (length (r_zset self) + start) + 100 - 1) = []"
    using zrevrange_nonempty [of self "length (r_zset self) + start"] by fastforce
  obtain r where r: "run_info_loop self limit f 0 [] = Some r"
    using run_info_loop_terminates by blast
  show "case run_info_loop self limit f 0 [] of
        Some (Inr l) \<Rightarrow> int (length l) \<le> limit | _ \<Rightarrow> True"
    using run_info_loop_length [of self limit f 0 "[]"] lim r by (cases r) auto
  show "\<exists>res. Redis_get_run_info self limit f = Some res \<and>
            (case res of Inl e \<Rightarrow> True | Inr l \<Rightarrow> int (length l) \<le> limit)"
  proof (cases r)
    case (Inl e)
    with r show ?thesis by (simp add: Redis_get_run_info_def)
  next
    case (Inr l)
    with r lim show ?thesis by (simp add: Redis_get_run_info_def py_slice_to_def)
  qed
qed

theorem redis_get_run_info_terminates_witness:
  "(1 :: int) \<le> 2 \<and>
   Redis_get_run_info two_runs 2 (Some ''rag'') = Some (Inr [\<lparr>run_id = ''a'', log_type = ''rag''\<rparr>]) \<and>
   int (length [\<lparr>run_id = ''a'', log_type = ''rag''\<rparr>]) \<le> 2"
proof -
  have h: "(1 :: int) \<le> 2" by simp
  have ev: "Redis_get_run_info two_runs 2 (Some ''rag'') = Some (Inr [\<lparr>run_id = ''a'', log_type = ''rag''\<rparr>])"
    by code_simp
  show ?thesis
    using h ev redis_get_run_info_terminates [OF h, of two_runs "Some ''rag''" 0 "[]"] by simp
qed

subsection \<open>Error records in the analytics pass\<close>

lemma findall_503: "re_findall ''Request failed with code 503'' = [''503'']"
  by (simp add: re_findall_def is_digit_def is_word_def)

lemma process_log_failed_503:
  "strptime_date t = Inr d \<Longrightarrow>
   process_log acc (failed_503 t r) =
     Inr (acc\<lparr>error_counts := bump ''503'' (error_counts acc),
              error_timestamps := bump2 d ''503'' (error_timestamps acc)\<rparr>)"
  by (simp add: process_log_def failed_503_def error_branch_def findall_503 key_branches_def Let_def)

text \<open>C8: a record with key \<^verbatim>\<open>error\<close> whose value has no three-digit token is skipped;
  one that has such tokens is counted under the last of them, in the counter of codes and in the
  counter of its day, the day being parsed from its timestamp with the fixed format (a
  timestamp that does not parse raises). Three records \<^verbatim>\<open>Request failed with code 503\<close>
  on a day \<^verbatim>\<open>D\<close> followed by one on another day \<^verbatim>\<open>D'\<close> give the labels
  \<^verbatim>\<open>D\<close>, \<^verbatim>\<open>D'\<close>, the data 3 and 1 for code 503, and the single pie entry of 503
  with count 4.\<close>

theorem error_records_are_counted_by_last_code:
  "(ld_key la = ''error'' \<and> re_findall (ld_value la) = [] \<longrightarrow> process_log acc la = Inr acc) \<and>
   (ld_key lb = ''error'' \<and> re_findall (ld_value lb) = codes @ [c] \<and>
    strptime_date (ld_timestamp lb) = Inr d \<longrightarrow>
      process_log acc lb =
        Inr (acc\<lparr>error_counts := bump c (error_counts acc),
                 error_timestamps := bump2 d c (error_timestamps acc)\<rparr>)) \<and>
   (ld_key lc = ''error'' \<and> re_findall (ld_value lc) \<noteq> [] \<and>
    strptime_date (ld_timestamp lc) = Inl e \<longrightarrow>
      process_log acc lc = Inl e) \<and>
   (strptime_date t1 = Inr D \<and> strptime_date t2 = Inr D \<and> strptime_date t3 = Inr D \<and>
    strptime_date t4 = Inr D' \<and> D' \<noteq> D \<longrightarrow>
      process_logs [failed_503 t1 r1, failed_503 t2 r2, failed_503 t3 r3, failed_503 t4 r4] =
        Inr (\<lparr>labels = [str_date D, str_date D'],
              datasets = [(''Error Code 503'', [3, 1])],
              pieChartData = [(''503'', 4)],
              agg_retrieval_scores = [], agg_query_timestamps = [],
              agg_vector_search_latencies = [], agg_rag_generation_latencies = [],
              agg_throughput_data = []\<rparr>, []))"
proof (intro conjI impI)
  assume "ld_key la = ''error'' \<and> re_findall (ld_value la) = []"
  then show "process_log acc la = Inr acc"
    by (simp add: process_log_def error_branch_def)
next
  assume a: "ld_key lb = ''error'' \<and> re_findall (ld_value lb) = codes @ [c] \<and>
    strptime_date (ld_timestamp lb) = Inr d"
  then have f: "re_findall (ld_value lb) = codes @ [c]" by simp
  obtain x xs where x: "codes @ [c] = x # xs" by (cases codes) auto
  then have "last (x # xs) = c" by (metis last_snoc)
  with a f x show "process_log acc lb =
        Inr (acc\<lparr>error_counts := bump c (error_counts acc),
                 error_timestamps := bump2 d c (error_timestamps acc)\<rparr>)"
    by (simp add: process_log_def error_branch_def key_branches_def Let_def)
next
  assume a: "ld_key lc = ''error'' \<and> re_findall (ld_value lc) \<noteq> [] \<and>
    strptime_date (ld_timestamp lc) = Inl e"
  then show "process_log acc lc = Inl e"
    by (cases "re_findall (ld_value lc)") (auto simp: process_log_def error_branch_def Let_def)
next
  assume a: "strptime_date t1 = Inr D \<and> strptime_date t2 = Inr D \<and> strptime_date t3 = Inr D \<and>
    strptime_date t4 = Inr D' \<and> D' \<noteq> D"
  then show "process_logs [failed_503 t1 r1, failed_503 t2 r2, failed_503 t3 r3, failed_503 t4 r4] =
        Inr (\<lparr>labels = [str_date D, str_date D'],
              datasets = [(''Error Code 503'', [3, 1])],
              pieChartData = [(''503'', 4)],
              agg_retrieval_scores = [], agg_query_timestamps = [],
              agg_vector_search_latencies = [], agg_rag_generation_latencies = [],
              agg_throughput_data = []\<rparr>, [])"
    by (auto simp: process_logs_def process_log_failed_503 init_accumulators_def make_aggregate_def get0_def)
qed

theorem error_records_are_counted_by_last_code_witness:
  "re_findall ''upstream timed out'' = [] \<and>
   process_log init_accumulators (error_record (TsText ''2024-03-01 10:00:00'') ''upstream timed out'')
     = Inr init_accumulators \<and>
   re_findall ''HTTP 404, then 503 on retry'' = [''404''] @ [''503''] \<and>
   strptime_date (TsText ''2024-03-01 10:00:00'') = Inr (Date 2024 3 1) \<and>
   process_log init_accumulators (error_record (TsText ''2024-03-01 10:00:00'') ''HTTP 404, then 503 on retry'')
     = Inr (init_accumulators\<lparr>error_counts := [(''503'', 1)],
              error_timestamps := [(Date 2024 3 1, [(''503'', 1)])]\<rparr>) \<and>
   strptime_date (TsText ''yesterday'') = Inl (ValueError ''time data does not match format'') \<and>
   process_log init_accumulators (error_record (TsText ''yesterday'') ''HTTP 404, then 503 on retry'')
     = Inl (ValueError ''time data does not match format'') \<and>
   strptime_date (TsText ''2024-03-01 11:30:00'') = Inr (Date 2024 3 1) \<and>
   strptime_date (TsText ''2024-03-01 23:59:59'') = Inr (Date 2024 3 1) \<and>
   strptime_date (TsText ''2024-03-02 00:00:00'') = Inr (Date 2024 3 2) \<and>
   process_logs [failed_503 (TsText ''2024-03-01 10:00:00'') ''a'',
                 failed_503 (TsText ''2024-03-01 11:30:00'') ''a'',
                 failed_503 (TsText ''2024-03-01 23:59:59'') ''b'',
                 failed_503 (TsText ''2024-03-02 00:00:00'') ''b''] =
     Inr (\<lparr>labels = [''2024-03-01'', ''2024-03-02''],
           datasets = [(''Error Code 503'', [3, 1])],
           pieChartData = [(''503'', 4)],
           agg_retrieval_scores = [], agg_query_timestamps = [],
           agg_vector_search_latencies = [], agg_rag_generation_latencies = [],
           agg_throughput_data = []\<rparr>, [])"
proof -
  have f1: "re_findall ''upstream timed out'' = []" by code_simp
  have f2: "re_findall ''HTTP 404, then 503 on retry'' = [''404''] @ [''503'']" by code_simp
  have s1: "strptime_date (TsText ''2024-03-01 10:00:00'') = Inr (Date 2024 3 1)" by code_simp
  have s2: "strptime_date (TsText ''2024-03-01 11:30:00'') = Inr (Date 2024 3 1)" by code_simp
  have s3: "strptime_date (TsText ''2024-03-01 23:59:59'') = Inr (Date 2024 3 1)" by code_simp
  have s4: "strptime_date (TsText ''2024-03-02 00:00:00'') = Inr (Date 2024 3 2)" by code_simp
  have s5: "strptime_date (TsText ''yesterday'') = Inl (ValueError ''time data does not match format'')"
    by code_simp
  have d1: "str_date (Date 2024 3 1) = ''2024-03-01''" by code_simp
  have d2: "str_date (Date 2024 3 2) = ''2024-03-02''" by code_simp
  have k: "ld_key (error_record t v) = ''error''" "ld_value (error_record t v) = v"
    "ld_timestamp (error_record t v) = t" for t v
    by (simp_all add: error_record_def)
  show ?thesis
    using error_records_are_counted_by_last_code
      [of "error_record (TsText ''2024-03-01 10:00:00'') ''upstream timed out''" init_accumulators
          "error_record (TsText ''2024-03-01 10:00:00'') ''HTTP 404, then 503 on retry''"
          "[''404'']" "''503''" "Date 2024 3 1"
          "error_record (TsText ''yesterday'') ''HTTP 404, then 503 on retry''"
          "ValueError ''time data does not match format''"
          "TsText ''2024-03-01 10:00:00''" "Date 2024 3 1" "TsText ''2024-03-01 11:30:00''"
          "TsText ''2024-03-01 23:59:59''" "TsText ''2024-03-02 00:00:00''" "Date 2024 3 2"
          "''a''" "''a''" "''b''" "''b''"]
      f1 f2 s1 s2 s3 s4 s5 d1 d2 k
    by (simp add: init_accumulators_def)
qed

subsection \<open>Parse failures in the analytics pass\<close>

lemma append_scores_acc:
  "append_scores xs scores = (fst (append_scores xs []), scores @ snd (append_scores xs []))"
proof (induction xs arbitrary: scores)
  case Nil
  then show ?case by simp
next
  case (Cons x xs)
  show ?case
  proof (cases "loads_element x")
    case (Inl e)
    then show ?thesis by simp
  next
    case (Inr result)
    show ?thesis
    proof (cases "subscript result ''score''")
      case (Inl e)
      with Inr show ?thesis by simp
    next
      case sc: (Inr score)
      have a: "append_scores xs (scores @ [score]) =
        (fst (append_scores xs []), (scores @ [score]) @ snd (append_scores xs []))"
        by (rule Cons.IH)
      have b: "append_scores xs [score] =
        (fst (append_scores xs []), [score] @ snd (append_scores xs []))"
        by (rule Cons.IH)
      from Inr sc a b show ?thesis by simp
    qed
  qed
qed

lemma append_scores_stops:
  assumes good: "append_scores good [] = (None, ss)"
    and bad: "append_scores [bad] [] = (Some e, [])"
  shows "append_scores (good @ bad # rest) scores = (Some e, scores @ ss)"
  using good
proof (induction good arbitrary: scores ss)
  case Nil
  then have "ss = []" by simp
  moreover from bad have "append_scores (bad # rest) scores = (Some e, scores)"
    by (auto split: sum.splits)
  ultimately show ?case by simp
next
  case (Cons g good)
  from Cons.prems obtain result score where r: "loads_element g = Inr result"
    and s: "subscript result ''score'' = Inr score"
    by (auto split: sum.splits)
  with Cons.prems have t: "append_scores good [score] = (None, ss)" by simp
  obtain ss' where ss': "append_scores good [] = (None, ss')" and eq: "ss = [score] @ ss'"
    using t append_scores_acc [of good "[score]"] by (cases "append_scores good []") auto
  from Cons.IH [OF ss'] have "append_scores (good @ bad # rest) (scores @ [score]) = (Some e, (scores @ [score]) @ ss')" .
  with r s eq show ?case by simp
qed

lemma process_loop_append:
  "process_loop acc pre = Inr acc' \<Longrightarrow> process_loop acc (pre @ post) = process_loop acc' post"
  by (induction pre arbitrary: acc) (auto split: sum.splits)

lemma search_results_branch_shape:
  "\<exists>ss lines. search_results_branch acc v =
      acc\<lparr>retrieval_scores := retrieval_scores acc @ ss, logged := logged acc @ lines\<rparr>"
proof (cases "json_loads v")
  case (Inl e)
  have "search_results_branch acc v =
      acc\<lparr>retrieval_scores := retrieval_scores acc @ [], logged := logged acc @ [(v, e)]\<rparr>"
    using Inl by (simp add: search_results_branch_def)
  then show ?thesis by blast
next
  case (Inr j)
  show ?thesis
  proof (cases "py_iter j")
    case (Inl e)
    have "search_results_branch acc v =
      acc\<lparr>retrieval_scores := retrieval_scores acc @ [], logged := logged acc @ [(v, e)]\<rparr>"
      using Inl Inr by (simp add: search_results_branch_def)
    then show ?thesis by blast
  next
    case it: (Inr xs)
    obtain r ss where rs: "append_scores xs [] = (r, ss)" by (cases "append_scores xs []")
    then have full: "append_scores xs (retrieval_scores acc) = (r, retrieval_scores acc @ ss)"
      using append_scores_acc [of xs "retrieval_scores acc"] by simp
    show ?thesis
    proof (cases r)
      case None
      have "search_results_branch acc v =
        acc\<lparr>retrieval_scores := retrieval_scores acc @ ss, logged := logged acc @ []\<rparr>"
        using Inr it full None by (simp add: search_results_branch_def)
      then show ?thesis by blast
    next
      case (Some e)
      have "search_results_branch acc v =
        acc\<lparr>retrieval_scores := retrieval_scores acc @ ss, logged := logged acc @ [(v, e)]\<rparr>"
        using Inr it full Some by (simp add: search_results_branch_def)
      then show ?thesis by blast
    qed
  qed
qed

text \<open>C9, as amended: a \<^verbatim>\<open>search_results\<close> record never raises and changes only the
  scores and the logger's lines; when its value does not parse the record is logged and skipped;
  when an entry of its array fails, the scores of the entries before it are kept, the failure
  is logged and the entries after it are not read. A latency value that is not a float raises,
  and the exception leaves \<^verbatim>\<open>process_logs\<close>.\<close>

theorem search_results_failures_are_caught_latency_failures_propagate:
  "(ld_key l1 = ''search_results'' \<longrightarrow>
      (\<exists>ss lines. process_log acc l1 =
         Inr (acc\<lparr>retrieval_scores := retrieval_scores acc @ ss, logged := logged acc @ lines\<rparr>))) \<and>
   (ld_key l2 = ''search_results'' \<and> json_loads (ld_value l2) = Inl e2 \<longrightarrow>
      process_log acc l2 = Inr (acc\<lparr>logged := logged acc @ [(ld_value l2, e2)]\<rparr>)) \<and>
   (ld_key l3 = ''search_results'' \<and> json_loads (ld_value l3) = Inr (JArr (good @ bad # rest)) \<and>
    append_scores good [] = (None, ss) \<and> append_scores [bad] [] = (Some e3, []) \<longrightarrow>
      process_log acc l3 =
        Inr (acc\<lparr>retrieval_scores := retrieval_scores acc @ ss,
                 logged := logged acc @ [(ld_value l3, e3)]\<rparr>)) \<and>
   ((ld_key l4 = ''vector_search_latency'' \<or> ld_key l4 = ''rag_generation_latency'') \<and>
    py_float (ld_value l4) = Inl e4 \<and> process_loop init_accumulators pre = Inr acc4 \<longrightarrow>
      process_log acc l4 = Inl e4 \<and> process_logs (pre @ l4 # post) = Inl e4)"
proof (intro conjI impI)
  assume k: "ld_key l1 = ''search_results''"
  obtain ss lines where "search_results_branch acc (ld_value l1) =
      acc\<lparr>retrieval_scores := retrieval_scores acc @ ss, logged := logged acc @ lines\<rparr>"
    using search_results_branch_shape by blast
  with k have "process_log acc l1 =
         Inr (acc\<lparr>retrieval_scores := retrieval_scores acc @ ss, logged := logged acc @ lines\<rparr>)"
    by (simp add: process_log_def key_branches_def)
  then show "\<exists>ss lines. process_log acc l1 =
         Inr (acc\<lparr>retrieval_scores := retrieval_scores acc @ ss, logged := logged acc @ lines\<rparr>)"
    by blast
next
  assume "ld_key l2 = ''search_results'' \<and> json_loads (ld_value l2) = Inl e2"
  then show "process_log acc l2 = Inr (acc\<lparr>logged := logged acc @ [(ld_value l2, e2)]\<rparr>)"
    by (simp add: process_log_def key_branches_def search_results_branch_def)
next
  assume a: "ld_key l3 = ''search_results'' \<and> json_loads (ld_value l3) = Inr (JArr (good @ bad # rest)) \<and>
    append_scores good [] = (None, ss) \<and> append_scores [bad] [] = (Some e3, [])"
  then have "append_scores (good @ bad # rest) (retrieval_scores acc) = (Some e3, retrieval_scores acc @ ss)"
    using append_scores_stops by blast
  with a show "process_log acc l3 =
        Inr (acc\<lparr>retrieval_scores := retrieval_scores acc @ ss,
                 logged := logged acc @ [(ld_value l3, e3)]\<rparr>)"
    by (simp add: process_log_def key_branches_def search_results_branch_def py_iter_def)
next
  assume a: "(ld_key l4 = ''vector_search_latency'' \<or> ld_key l4 = ''rag_generation_latency'') \<and>
    py_float (ld_value l4) = Inl e4 \<and> process_loop init_accumulators pre = Inr acc4"
  then have one: "process_log acc' l4 = Inl e4" for acc'
    by (auto simp: process_log_def key_branches_def)
  then show "process_log acc l4 = Inl e4" by simp
  from a have "process_loop init_accumulators (pre @ l4 # post) = process_loop acc4 (l4 # post)"
    using process_loop_append by blast
  with one show "process_logs (pre @ l4 # post) = Inl e4"
    by (simp add: process_logs_def)
qed

text \<open>C9 as stated fails: in \<^verbatim>\<open>["{\"score\":0.9}", "oops", "{\"score\":0.4}"]\<close> the
  third entry is well formed, and its score 0.4 is not extracted.\<close>

theorem malformed_entry_drops_later_scores:
  "json_loads malformed_middle = Inr (JArr [JStr score_09, JStr ''oops'', JStr score_04]) \<and>
   json_loads score_09 = Inr (JObj [(''score'', JNum ''0.9'')]) \<and>
   json_loads ''oops'' = Inl JSONDecodeError \<and>
   json_loads score_04 = Inr (JObj [(''score'', JNum ''0.4'')]) \<and>
   process_logs [search_record malformed_middle] =
     Inr (\<lparr>labels = [], datasets = [], pieChartData = [],
           agg_retrieval_scores = [JNum ''0.9''], agg_query_timestamps = [],
           agg_vector_search_latencies = [], agg_rag_generation_latencies = [],
           agg_throughput_data = []\<rparr>, [(malformed_middle, JSONDecodeError)])"
  by code_simp

theorem search_results_failures_are_caught_latency_failures_propagate_witness:
  "ld_key (search_record ''not json'') = ''search_results'' \<and>
   json_loads (ld_value (search_record ''not json'')) = Inl JSONDecodeError \<and>
   process_log init_accumulators (search_record ''not json'')
     = Inr (init_accumulators\<lparr>logged := [(''not json'', JSONDecodeError)]\<rparr>) \<and>
   ld_key (search_record malformed_middle) = ''search_results'' \<and>
   json_loads (ld_value (search_record malformed_middle))
     = Inr (JArr ([JStr score_09] @ JStr ''oops'' # [JStr score_04])) \<and>
   append_scores [JStr score_09] [] = (None, [JNum ''0.9'']) \<and>
   append_scores [JStr ''oops''] [] = (Some JSONDecodeError, []) \<and>
   process_log init_accumulators (search_record malformed_middle)
     = Inr (init_accumulators\<lparr>retrieval_scores := [JNum ''0.9''],
              logged := [(malformed_middle, JSONDecodeError)]\<rparr>) \<and>
   ld_key (latency_record ''rag_generation_latency'' ''fast'') = ''rag_generation_latency'' \<and>
   py_float (ld_value (latency_record ''rag_generation_latency'' ''fast''))
     = Inl (ValueError ''could not convert string to float'') \<and>
   process_loop init_accumulators [search_record malformed_middle]
     = Inr (init_accumulators\<lparr>retrieval_scores := [JNum ''0.9''],
              logged := [(malformed_middle, JSONDecodeError)]\<rparr>) \<and>
   process_logs ([search_record malformed_middle] @
                 latency_record ''rag_generation_latency'' ''fast'' # [search_record ''not json''])
     = Inl (ValueError ''could not convert string to float'')"
proof -
  have k: "ld_key (search_record v) = ''search_results''" "ld_value (search_record v) = v" for v
    by (simp_all add: search_record_def)
  have kl: "ld_key (latency_record a b) = a" "ld_value (latency_record a b) = b" for a b
    by (simp_all add: latency_record_def)
  have j1: "json_loads ''not json'' = Inl JSONDecodeError" by code_simp
  have j2: "json_loads malformed_middle = Inr (JArr ([JStr score_09] @ JStr ''oops'' # [JStr score_04]))"
    by code_simp
  have a1: "append_scores [JStr score_09] [] = (None, [JNum ''0.9''])" by code_simp
  have a2: "append_scores [JStr ''oops''] [] = (Some JSONDecodeError, [])" by code_simp
  have f: "py_float ''fast'' = Inl (ValueError ''could not convert string to float'')" by code_simp
  have p: "process_loop init_accumulators [search_record malformed_middle]
     = Inr (init_accumulators\<lparr>retrieval_scores := [JNum ''0.9''],
              logged := [(malformed_middle, JSONDecodeError)]\<rparr>)"
    by code_simp
  show ?thesis
    using search_results_failures_are_caught_latency_failures_propagate
      [of "search_record malformed_middle" init_accumulators
          "search_record ''not json''" JSONDecodeError
          "search_record malformed_middle" "[JStr score_09]" "JStr ''oops''" "[JStr score_04]"
          "[JNum ''0.9'']" JSONDecodeError
          "latency_record ''rag_generation_latency'' ''fast''"
          "ValueError ''could not convert string to float''"
          "[search_record malformed_middle]"
          "init_accumulators\<lparr>retrieval_scores := [JNum ''0.9''],
              logged := [(malformed_middle, JSONDecodeError)]\<rparr>"
          "[search_record ''not json'']"]
      k kl j1 j2 a1 a2 f p
    by (simp add: init_accumulators_def)
qed

subsection \<open>The most recent records of each run\<close>









lemma filter_eq_single:
  "distinct ids \<Longrightarrow> r \<in> set ids \<Longrightarrow> filter (\<lambda>q. q = r) ids = [r]"
proof (induction ids)
  case Nil
  then show ?case by simp
next
  case (Cons q ids)
  show ?case
  proof (cases "q = r")
    case True
    with Cons.prems have "r \<notin> set ids" by simp
    then have "filter (\<lambda>q. q = r) ids = []" by (auto simp: filter_empty_conv)
    with True show ?thesis by simp
  next
    case False
    with Cons show ?thesis by simp
  qed
qed

text \<open>Every order of the rows by descending timestamp is the order some choice of the
  engine gives (for rows that differ from one another), so the model leaves the order of rows
  with equal timestamps as open as SQL does.\<close>

lemma nth_position:
  "x \<in> set out \<Longrightarrow> out ! length (takeWhile (\<lambda>y. y \<noteq> x) out) = x"
  by (induction out) auto

lemma position_append:
  "x \<notin> set pre \<Longrightarrow>
   length (takeWhile (\<lambda>y. y \<noteq> x) (pre @ ys)) = length pre + length (takeWhile (\<lambda>y. y \<noteq> x) ys)"
  by (induction pre) auto

lemma position_sorted:
  "distinct (pre @ out) \<Longrightarrow> sorted (map a out) \<Longrightarrow>
   sorted (map (\<lambda>r. (a r, length (takeWhile (\<lambda>x. x \<noteq> r) (pre @ out)))) out)"
  for a :: "'a \<Rightarrow> int"
proof (induction out arbitrary: pre)
  case Nil
  then show ?case by simp
next
  case (Cons x out)
  have "sorted (map (\<lambda>r. (a r, length (takeWhile (\<lambda>y. y \<noteq> r) ((pre @ [x]) @ out)))) out)"
    using Cons.prems by (intro Cons.IH) auto
  then have ih: "sorted (map (\<lambda>r. (a r, length (takeWhile (\<lambda>y. y \<noteq> r) (pre @ x # out)))) out)"
    by simp
  have le: "(a x, length (takeWhile (\<lambda>y. y \<noteq> x) (pre @ x # out)))
        \<le> (a r, length (takeWhile (\<lambda>y. y \<noteq> r) (pre @ x # out)))" if "r \<in> set out" for r
  proof -
    from that Cons.prems have ar: "a x \<le> a r" and ne: "x \<noteq> r"
      and xp: "x \<notin> set pre" and rp: "r \<notin> set pre" by auto
    have px: "length (takeWhile (\<lambda>y. y \<noteq> x) (pre @ x # out)) = length pre"
      using position_append [OF xp, of "x # out"] by simp
    have pr: "length pre \<le> length (takeWhile (\<lambda>y. y \<noteq> r) (pre @ x # out))"
      using position_append [OF rp, of "x # out"] by simp
    from px pr ar show ?thesis by (simp add: less_eq_prod_def)
  qed
  from ih le show ?case by simp
qed

lemma order_by_desc_reaches_every_order:
  assumes d: "distinct rows" and m: "mset out = mset rows"
    and s: "sorted (map (\<lambda>r. - ts r) out)"
  shows "\<exists>tie. order_by_desc tie ts rows = out"
proof -
  define tie where "tie = (\<lambda>r. length (takeWhile (\<lambda>x. x \<noteq> r) out))"
  define f where "f = (\<lambda>r. (- ts r, tie r))"
  from d m have dout: "distinct out" using mset_eq_imp_distinct_iff by blast
  have inj: "x = y" if "x \<in> set out" "y \<in> set out" "tie x = tie y" for x y
  proof -
    have "out ! tie x = x" "out ! tie y = y"
      using that(1,2) unfolding tie_def by (simp_all add: nth_position)
    with that(3) show ?thesis by metis
  qed
  have srt: "sorted (map f out)"
    using position_sorted [of "[]" out "\<lambda>r. - ts r"] dout s by (simp add: f_def tie_def)
  have flt: "filter (\<lambda>x. f k = f x) out = filter (\<lambda>x. f k = f x) rows" if "k \<in> set out" for k
  proof -
    have krows: "k \<in> set rows" using that m by (metis set_mset_mset)
    have sets: "set rows = set out" using m by (metis set_mset_mset)
    have eq: "f k = f x \<longleftrightarrow> x = k" if x: "x \<in> set out" for x
    proof
      assume "f k = f x"
      then have "tie k = tie x" by (simp add: f_def)
      then show "x = k" using inj [OF \<open>k \<in> set out\<close> x] by simp
    next
      assume "x = k"
      then show "f k = f x" by simp
    qed
    have "filter (\<lambda>x. f k = f x) out = filter (\<lambda>x. x = k) out"
      by (rule filter_cong) (auto simp: eq)
    moreover have "filter (\<lambda>x. f k = f x) rows = filter (\<lambda>x. x = k) rows"
      by (rule filter_cong) (auto simp: eq sets)
    moreover have "filter (\<lambda>x. x = k) out = [k]" "filter (\<lambda>x. x = k) rows = [k]"
      using dout d that krows by (simp_all add: filter_eq_single)
    ultimately show ?thesis by simp
  qed
  have "sort_key f rows = out" using m flt srt by (rule properties_for_sort_key)
  then show ?thesis unfolding order_by_desc_def f_def by blast
qed












text \<open>Seven records of one run with the timestamps 1, 1, 2, 2, 1, 1, 2: which of the three
  newest the relational query returns for limit 1 depends on the engine's choice, and each
  answer is a choice of the most recent record.\<close>

lemma engine_choice_decides_among_equal_timestamps:
  "KVLoggingSingleton_get_logs (Postgres (seven_tied (\<lambda>x. 0))) [''a''] 1 =
     Inr [\<lparr>ld_timestamp = TsDatetime 2, ld_log_id = ''a'', ld_key = ''k2'', ld_value = ''v'', ld_rn = Some 1\<rparr>] \<and>
   KVLoggingSingleton_get_logs (Postgres (seven_tied prefers_k3)) [''a''] 1 =
     Inr [\<lparr>ld_timestamp = TsDatetime 2, ld_log_id = ''a'', ld_key = ''k3'', ld_value = ''v'', ld_rn = Some 1\<rparr>] \<and>
   is_most_recent 1 (stored_records (Postgres (seven_tied (\<lambda>x. 0))) ''a'')
     [(2, \<lparr>ld_timestamp = TsDatetime 2, ld_log_id = ''a'', ld_key = ''k2'', ld_value = ''v'', ld_rn = None\<rparr>)] \<and>
   is_most_recent 1 (stored_records (Postgres (seven_tied (\<lambda>x. 0))) ''a'')
     [(2, \<lparr>ld_timestamp = TsDatetime 2, ld_log_id = ''a'', ld_key = ''k3'', ld_value = ''v'', ld_rn = None\<rparr>)]"
  by code_simp

end
